theory Spec2Isabelle
  imports Main "HOL-Library.Word"
begin

unbundle bit_operations_syntax

section \<open>Machine types\<close>

type_synonym u8 = "8 word"
type_synonym u16 = "16 word"
type_synonym u32 = "32 word"

text \<open>Addresses of objects in RAM; a C pointer is an \<open>addr option\<close>, \<open>None\<close> being NULL.\<close>

type_synonym addr = nat

section \<open>Format calculus (format.h, format.c)\<close>

text \<open>
  \<^verbatim>\<open>#define FORMAT_CODE(a, b, c, d) (((uint32_t)(a) << 0) | ((uint32_t)(b) << 8) |
                                   ((uint32_t)(c) << 16) | ((uint32_t)(d) << 24))\<close>
  The four characters are given by their ASCII codes.
\<close>

definition FORMAT_CODE :: "u8 \<Rightarrow> u8 \<Rightarrow> u8 \<Rightarrow> u8 \<Rightarrow> u32" where
  "FORMAT_CODE a b c d =
     push_bit 0 (ucast a) OR push_bit 8 (ucast b) OR push_bit 16 (ucast c) OR push_bit 24 (ucast d)"

definition FORMAT_YUYV :: u32 where
  "FORMAT_YUYV = FORMAT_CODE 0x59 0x55 0x59 0x56"   \<comment> \<open>'Y', 'U', 'Y', 'V'\<close>

definition FORMAT_RGB565 :: u32 where
  "FORMAT_RGB565 = FORMAT_CODE 0x52 0x47 0x31 0x36" \<comment> \<open>'R', 'G', '1', '6'\<close>

definition FORMAT_YUV422 :: u32 where
  "FORMAT_YUV422 = FORMAT_CODE 0x59 0x55 0x31 0x36" \<comment> \<open>'Y', 'U', '1', '6'\<close>

text \<open>The \<open>switch\<close> statements of format.c, case by case, with the fall-through of
  \<open>FORMAT_YUYV\<close> into \<open>FORMAT_RGB565\<close>.\<close>

definition format_num_planes :: "u32 \<Rightarrow> u8" where
  "format_num_planes format =
     (if format = FORMAT_YUYV then 1
      else if format = FORMAT_RGB565 then 1
      else if format = FORMAT_YUV422 then 3
      else 0)"

definition format_bytes_per_pixel :: "u32 \<Rightarrow> u8 \<Rightarrow> u8" where
  "format_bytes_per_pixel format plane =
     (if format = FORMAT_YUYV then 2
      else if format = FORMAT_RGB565 then 2
      else if format = FORMAT_YUV422 then 1
      else 0)"

definition format_hsub :: "u32 \<Rightarrow> u8 \<Rightarrow> u8" where
  "format_hsub format plane =
     (if format = FORMAT_YUV422 then (if plane \<noteq> 0 then 2 else 1)
      else 1)"

text \<open>
  \<^verbatim>\<open>return format_bytes_per_pixel(format, plane) * width / format_hsub(format, plane);\<close>
  The \<open>uint8_t\<close> and \<open>uint16_t\<close> operands are promoted to the 32-bit \<open>int\<close>, the
  arithmetic is done there, and the result is converted to \<open>uint32_t\<close>. All operands are
  non-negative, so C's truncating division is \<open>div\<close>; that the product stays inside
  \<open>int\<close> is lemma \<open>format_stride_product_in_int\<close> below.
\<close>

definition format_stride :: "u32 \<Rightarrow> u8 \<Rightarrow> u16 \<Rightarrow> u32" where
  "format_stride format plane width =
     word_of_int (uint (format_bytes_per_pixel format plane) * uint width
                    div uint (format_hsub format plane))"

text \<open>
  \<^verbatim>\<open>return format_stride(format, plane, width) * height;\<close>
  The \<open>uint16_t\<close> height is converted to \<open>unsigned int\<close>; the product is taken in
  \<open>uint32_t\<close> and wraps modulo \<open>2 ^ 32\<close>.
\<close>

definition format_plane_size :: "u32 \<Rightarrow> u8 \<Rightarrow> u16 \<Rightarrow> u16 \<Rightarrow> u32" where
  "format_plane_size format plane width height =
     format_stride format plane width * ucast height"

definition supported_format :: "u32 \<Rightarrow> bool" where
  "supported_format format \<longleftrightarrow>
     format = FORMAT_YUYV \<or> format = FORMAT_RGB565 \<or> format = FORMAT_YUV422"

section \<open>Capture buffers (camera.h) and the C library allocator\<close>

definition CAMERA_WIDTH_DIV8 :: u16 where
  "CAMERA_WIDTH_DIV8 = 80"

definition CAMERA_HEIGHT_DIV8 :: u16 where
  "CAMERA_HEIGHT_DIV8 = 60"

definition CAMERA_MAX_N_PLANES :: nat where
  "CAMERA_MAX_N_PLANES = 3"

text \<open>\<open>struct camera_buffer\<close>: the three arrays have \<open>CAMERA_MAX_N_PLANES\<close> entries.\<close>

record camera_buffer =
  buf_format :: u32
  buf_width :: u16
  buf_height :: u16
  strides :: "u32 list"
  sizes :: "u32 list"
  data :: "addr option list"

text \<open>
  The heap of \<open>malloc\<close> and \<open>free\<close>. The C library is not part of the driver; the model
  keeps what the driver can observe of it: the live blocks (address and byte size), and
  for each coming call of \<open>malloc\<close> whether it finds memory (a call past the end of
  \<open>malloc_ok\<close> finds none). A successful \<open>malloc\<close> returns the address of a new block,
  different from every live one.
\<close>

record heap =
  blocks :: "(addr \<times> nat) list"
  malloc_ok :: "bool list"

definition fresh_addr :: "(addr \<times> nat) list \<Rightarrow> addr" where
  "fresh_addr bs = Suc (fold max (map fst bs) 0)"

definition malloc :: "nat \<Rightarrow> heap \<Rightarrow> addr option \<times> heap" where
  "malloc n h =
     (case malloc_ok h of
        [] \<Rightarrow> (None, h)
      | ok # rest \<Rightarrow>
          if ok then (Some (fresh_addr (blocks h)),
                      h\<lparr>blocks := blocks h @ [(fresh_addr (blocks h), n)], malloc_ok := rest\<rparr>)
          else (None, h\<lparr>malloc_ok := rest\<rparr>))"

definition free :: "addr \<Rightarrow> heap \<Rightarrow> heap" where
  "free a h = h\<lparr>blocks := filter (\<lambda>b. fst b \<noteq> a) (blocks h)\<rparr>"

text \<open>\<open>sizeof(struct camera_buffer)\<close> on the 32-bit target: 4 + 2 + 2 + 3 * (4 + 4 + 4).\<close>

definition sizeof_camera_buffer :: nat where
  "sizeof_camera_buffer = 44"

text \<open>
  The allocation loop of \<open>camera_buffer_alloc\<close>, over the plane indices still to do:
  \<^verbatim>\<open>
  for (int i = 0; i < num_planes; i++) {
      buf->strides[i] = format_stride(format, i, width);
      buf->sizes[i] = format_plane_size(format, i, width, height);
      buf->data[i] = malloc(buf->sizes[i]);
      if (!buf->data[i]) goto error;
  }\<close>
  The flag returned is \<open>False\<close> when the loop left through \<open>goto error\<close>.
\<close>

fun alloc_planes ::
  "u32 \<Rightarrow> u16 \<Rightarrow> u16 \<Rightarrow> nat list \<Rightarrow> camera_buffer \<Rightarrow> heap \<Rightarrow> bool \<times> camera_buffer \<times> heap"
where
  "alloc_planes format width height [] buf h = (True, buf, h)"
| "alloc_planes format width height (i # rest) buf h =
     (let buf1 = buf\<lparr>strides := (strides buf)[i := format_stride format (of_nat i) width]\<rparr>;
          buf2 = buf1\<lparr>sizes := (sizes buf1)[i := format_plane_size format (of_nat i) width height]\<rparr>
      in case malloc (unat (sizes buf2 ! i)) h of
           (p, h1) \<Rightarrow>
             let buf3 = buf2\<lparr>data := (data buf2)[i := p]\<rparr>
             in if p = None then (False, buf3, h1)
                else alloc_planes format width height rest buf3 h1)"

text \<open>
  The loop after the \<open>error:\<close> label (and of \<open>camera_buffer_free\<close>):
  \<^verbatim>\<open>
  for (int i = 0; i < num_planes; i++) {
      if (buf->data[i]) free(buf->data[i]);
  }\<close>
\<close>

fun free_planes :: "nat list \<Rightarrow> camera_buffer \<Rightarrow> heap \<Rightarrow> heap" where
  "free_planes [] buf h = h"
| "free_planes (i # rest) buf h =
     free_planes rest buf (case data buf ! i of Some a \<Rightarrow> free a h | None \<Rightarrow> h)"

text \<open>
  \<open>camera_buffer_alloc\<close> returns the pointer to the new \<open>struct camera_buffer\<close> together
  with the contents of that struct, or \<open>None\<close> for NULL. The designated initialiser
  zeroes the arrays.
\<close>

definition camera_buffer_alloc ::
  "u32 \<Rightarrow> u16 \<Rightarrow> u16 \<Rightarrow> heap \<Rightarrow> (addr \<times> camera_buffer) option \<times> heap"
where
  "camera_buffer_alloc format width height h =
     (case malloc sizeof_camera_buffer h of
        (None, h1) \<Rightarrow> (None, h1)
      | (Some b, h1) \<Rightarrow>
          let buf = \<lparr>buf_format = format, buf_width = width, buf_height = height,
                     strides = replicate CAMERA_MAX_N_PLANES 0,
                     sizes = replicate CAMERA_MAX_N_PLANES 0,
                     data = replicate CAMERA_MAX_N_PLANES None\<rparr>;
              num_planes = unat (format_num_planes format)
          in case alloc_planes format width height [0..<num_planes] buf h1 of
               (ok, buf', h2) \<Rightarrow>
                 if ok then (Some (b, buf'), h2)
                 else (None, free b (free_planes [0..<num_planes] buf' h2)))"

text \<open>\<open>camera_buffer_free\<close>, for a non-NULL buffer at address \<open>b\<close> with contents \<open>buf\<close>.\<close>

definition camera_buffer_free :: "(addr \<times> camera_buffer) option \<Rightarrow> heap \<Rightarrow> heap" where
  "camera_buffer_free bp h =
     (case bp of
        None \<Rightarrow> h
      | Some (b, buf) \<Rightarrow>
          free b (free_planes [0..<unat (format_num_planes (buf_format buf))] buf h))"

text \<open>The first \<open>k\<close> coming calls of \<open>malloc\<close> all find memory.\<close>

definition mallocs_succeed :: "nat \<Rightarrow> heap \<Rightarrow> bool" where
  "mallocs_succeed k h \<longleftrightarrow> k \<le> length (malloc_ok h) \<and> list_all id (take k (malloc_ok h))"

section \<open>Hardware and SDK interface (hardware/dma.h, hardware/pio.h, camera.pio.h, ov7670.h)\<close>

text \<open>
  \<open>PIO\<close> is a pointer to a PIO block; \<open>pio0\<close> and \<open>pio1\<close> are the two blocks of the chip,
  \<open>pio_invalid\<close> stands for any other pointer value.
\<close>

datatype PIO = pio0 | pio1 | pio_invalid

datatype dma_channel_transfer_size = DMA_SIZE_8 | DMA_SIZE_16 | DMA_SIZE_32

text \<open>\<open>dma_channel_config\<close>: the fields of the channel control word that the SDK's
  setters used by the driver write, and the rest of the word.\<close>

record dma_channel_config =
  transfer_data_size :: dma_channel_transfer_size
  read_increment :: bool
  write_increment :: bool
  dreq :: nat
  ctrl_rest :: u32

text \<open>\<open>pio_sm_config\<close>: the four configuration words of a state machine.\<close>

record pio_sm_config =
  clkdiv :: u32
  execctrl :: u32
  shiftctrl :: u32
  pinctrl :: u32

datatype pio_program =
    camera_pio_read_byte_program
  | camera_pio_frame_program
  | pixel_loop_yuyv_program
  | pixel_loop_yu16_program

datatype OV7670_status = OV7670_STATUS_OK | OV7670_STATUS_ERR_MALLOC | OV7670_STATUS_ERR_PERIPHERAL

datatype OV7670_colorspace = OV7670_COLOR_RGB | OV7670_COLOR_YUV

text \<open>The two fields of \<open>OV7670_pins\<close> that the driver reads.\<close>

record OV7670_pins =
  enable :: int
  reset :: int

datatype OV7670_size =
  OV7670_SIZE_DIV1 | OV7670_SIZE_DIV2 | OV7670_SIZE_DIV4 | OV7670_SIZE_DIV8 | OV7670_SIZE_DIV16

datatype irq_num = PIO0_IRQ_0 | PIO1_IRQ_0

datatype isr = camera_isr_pio0_handler | camera_isr_pio1_handler

text \<open>Function pointers of type \<open>camera_frame_cb\<close> are identified by a number.\<close>

type_synonym fn_ptr = nat

text \<open>
  The calls by which the driver acts on the peripherals, in the order it makes them. The
  peripherals themselves are not modelled: a call is recorded with its arguments. For
  \<open>Dma_channel_configure\<close> the arguments are the channel, its configuration, the write
  address, the read address (the receive register \<open>rxf[sm]\<close> of the PIO block plus a
  byte offset), the transfer count and the trigger flag. \<open>OV7670_delay_ms\<close>,
  \<open>OV7670_pin_output\<close> and \<open>OV7670_pin_write\<close> are macros that ov7670.c uses and the
  sources do not define; they are recorded as calls.
\<close>

datatype hw_call =
    Clock_gpio_init nat nat
  | Sleep_ms nat
  | I2c_write_blocking u8 "u8 list"
  | I2c_read_blocking u8 nat
  | OV7670_delay_ms_call nat
  | OV7670_pin_output_call int
  | OV7670_pin_write_call int nat
  | Dma_channel_claim int
  | Dma_claim_unused_channel int
  | Dma_channel_unclaim int
  | Pio_add_program PIO pio_program
  | Camera_pio_init_gpios PIO nat nat
  | Pio_write_inte0 PIO u32
  | Irq_set_exclusive_handler irq_num isr
  | Irq_set_enabled irq_num bool
  | Pio_sm_set_enabled PIO nat bool
  | Pio_set_sm_mask_enabled PIO u32 bool
  | Pio_restart_sm_mask PIO u32
  | Pio_sm_clear_fifos PIO nat
  | Camera_pio_patch_pixel_loop PIO nat "pio_program option"
  | Pio_sm_init PIO nat nat pio_sm_config
  | Dma_channel_configure int dma_channel_config "addr option" PIO nat u32 u32 bool
  | Camera_pio_trigger_frame PIO u32 u32
  | Pio_interrupt_clear PIO nat
  | Frame_cb_call fn_ptr addr "addr option"

text \<open>
  The functions of the SDK and of the generated header camera.pio.h that compute a value
  from their arguments. Their code is not part of the driver's sources; the driver is
  modelled for any such functions.
\<close>

record sdk =
  pio_add_program :: "PIO \<Rightarrow> pio_program \<Rightarrow> nat"
  pio_get_dreq :: "PIO \<Rightarrow> nat \<Rightarrow> bool \<Rightarrow> nat"
  dma_channel_get_default_config :: "int \<Rightarrow> dma_channel_config"
  camera_pio_get_frame_sm_config :: "PIO \<Rightarrow> nat \<Rightarrow> nat \<Rightarrow> nat \<Rightarrow> pio_sm_config"
  camera_pio_get_read_byte_sm_config :: "PIO \<Rightarrow> nat \<Rightarrow> nat \<Rightarrow> nat \<Rightarrow> nat \<Rightarrow> pio_sm_config"

definition NUM_DMA_CHANNELS :: nat where
  "NUM_DMA_CHANNELS = 12"

section \<open>The capture context (camera.h)\<close>

text \<open>\<open>struct camera_platform_config\<close>. The two bus transaction function pointers and
  their handle are represented by the reply tape \<open>i2c_replies\<close> of the system state.\<close>

record camera_platform_config =
  pio :: PIO
  xclk_pin :: nat
  xclk_divider :: nat
  base_pin :: nat
  base_dma_channel :: int

text \<open>\<open>struct camera_config\<close>: three arrays of \<open>CAMERA_MAX_N_PLANES\<close> entries and
  \<open>sm_cfgs\<close> of 4.\<close>

record camera_config =
  cfg_format :: u32
  cfg_width :: u16
  cfg_height :: u16
  dma_transfers :: "u32 list"
  dma_offset :: "u32 list"
  dma_cfgs :: "dma_channel_config list"
  sm_cfgs :: "pio_sm_config list"

text \<open>\<open>struct camera\<close>. \<open>platform\<close> is \<open>driver_host.platform\<close>, the pointer to the
  caller's platform configuration (\<open>None\<close> for NULL). \<open>driver_host.pins\<close> always
  points to the pins \<open>{ .enable = -1, .reset = -1 }\<close> that \<open>camera_init\<close> passes to
  \<open>OV7670_begin\<close>, and is not kept in the record.\<close>

record camera =
  platform :: "camera_platform_config option"
  frame_offset :: nat
  shift_byte_offset :: nat
  dma_channels :: "int list"
  config :: camera_config
  pending :: "addr option"
  pending_cb :: "fn_ptr option"
  cb_data :: "addr option"

text \<open>
  The state of the system as the driver sees it: the \<open>struct camera\<close> objects in memory,
  the global \<open>irq_ctxs[2]\<close>, which of the two PIO interrupt lines are enabled, the DMA
  channels claimed in the SDK's bitmap, the replies that the platform's bus transaction
  functions will give to the coming transactions, in order (return value and, for a
  read, the byte stored into the buffer if any), and the calls made so far.
\<close>

record sys =
  cameras :: "addr \<rightharpoonup> camera"
  irq_ctxs :: "addr option list"
  irq_enabled :: "bool list"
  dma_claimed :: "int set"
  i2c_replies :: "(int \<times> u8 option) list"
  trace :: "hw_call list"

text \<open>How a call of the driver can fail to return a value: a pointer that is NULL or
  does not point to a context is dereferenced, a \<open>hard_assert\<close> or a panic of the SDK
  halts the processor, the call waits forever, an array is read past its last element,
  or the value of an uninitialised variable is used. In the last two cases the C program
  has left its defined behaviour; the call is taken not to return.\<close>

datatype halt =
  Bad_pointer | Hard_assert | Sdk_panic | Never_returns | Out_of_bounds | Uninitialised_value

text \<open>The completion callbacks, by function pointer: what the callback does to the
  system when called with a buffer pointer and the user data.\<close>

type_synonym cb_table = "fn_ptr \<Rightarrow> addr \<Rightarrow> addr option \<Rightarrow> sys \<Rightarrow> sys"

definition emit :: "hw_call list \<Rightarrow> sys \<Rightarrow> sys" where
  "emit calls s = s\<lparr>trace := trace s @ calls\<rparr>"

definition sleep_ms :: "nat \<Rightarrow> sys \<Rightarrow> sys" where
  "sleep_ms n = emit [Sleep_ms n]"

definition CAMERA_PIO_FRAME_SM :: nat where
  "CAMERA_PIO_FRAME_SM = 0"

definition irq_index :: "irq_num \<Rightarrow> nat" where
  "irq_index n = (case n of PIO0_IRQ_0 \<Rightarrow> 0 | PIO1_IRQ_0 \<Rightarrow> 1)"

definition irq_set_enabled :: "irq_num \<Rightarrow> bool \<Rightarrow> sys \<Rightarrow> sys" where
  "irq_set_enabled n en s =
     emit [Irq_set_enabled n en] (s\<lparr>irq_enabled := (irq_enabled s)[irq_index n := en]\<rparr>)"

section \<open>Interrupt completion (camera.c)\<close>

text \<open>
  \<^verbatim>\<open>
  static inline void __camera_isr(struct camera *camera) {
      if (!camera || !camera->pending) return;
      if (camera->pending_cb) camera->pending_cb(camera->pending, camera->cb_data);
      camera->pending = NULL;
  }\<close>
\<close>

definition camera_isr :: "cb_table \<Rightarrow> addr option \<Rightarrow> sys \<Rightarrow> halt + sys" where
  "camera_isr cbs camera s =
     (case camera of
        None \<Rightarrow> Inr s
      | Some p \<Rightarrow>
          (case cameras s p of
             None \<Rightarrow> Inl Bad_pointer
           | Some c \<Rightarrow>
               (case pending c of
                  None \<Rightarrow> Inr s
                | Some b \<Rightarrow>
                    let s1 = (case pending_cb c of
                                None \<Rightarrow> s
                              | Some f \<Rightarrow> cbs f b (cb_data c) (emit [Frame_cb_call f b (cb_data c)] s))
                    in (case cameras s1 p of
                          None \<Rightarrow> Inl Bad_pointer
                        | Some c1 \<Rightarrow> Inr (s1\<lparr>cameras := (cameras s1)(p \<mapsto> c1\<lparr>pending := None\<rparr>)\<rparr>)))))"

definition camera_isr_pio0 :: "cb_table \<Rightarrow> sys \<Rightarrow> halt + sys" where
  "camera_isr_pio0 cbs s =
     (case camera_isr cbs (irq_ctxs s ! 0) s of
        Inl h \<Rightarrow> Inl h
      | Inr s1 \<Rightarrow> Inr (emit [Pio_interrupt_clear pio0 0] s1))"

definition camera_isr_pio1 :: "cb_table \<Rightarrow> sys \<Rightarrow> halt + sys" where
  "camera_isr_pio1 cbs s =
     (case camera_isr cbs (irq_ctxs s ! 1) s of
        Inl h \<Rightarrow> Inl h
      | Inr s1 \<Rightarrow> Inr (emit [Pio_interrupt_clear pio1 0] s1))"

section \<open>Sensor bus and detection (camera.c)\<close>

text \<open>
  The platform's \<open>i2c_write_blocking\<close> and \<open>i2c_read_blocking\<close>, as the driver calls them
  through the platform configuration: each transaction takes the next reply of the tape;
  past its end nothing is transferred (return value 0, buffer untouched).
\<close>

definition OV7670_ADDR :: u8 where
  "OV7670_ADDR = 0x21"

definition OV7670_REG_PID :: u8 where
  "OV7670_REG_PID = 0x0A"

definition i2c_write_blocking :: "u8 \<Rightarrow> u8 list \<Rightarrow> sys \<Rightarrow> int \<times> sys" where
  "i2c_write_blocking a src s =
     (case i2c_replies s of
        [] \<Rightarrow> (0, emit [I2c_write_blocking a src] s)
      | r # rest \<Rightarrow> (fst r, emit [I2c_write_blocking a src] (s\<lparr>i2c_replies := rest\<rparr>)))"

definition i2c_read_blocking :: "u8 \<Rightarrow> nat \<Rightarrow> sys \<Rightarrow> (int \<times> u8 option) \<times> sys" where
  "i2c_read_blocking a len s =
     (case i2c_replies s of
        [] \<Rightarrow> ((0, None), emit [I2c_read_blocking a len] s)
      | r # rest \<Rightarrow> (r, emit [I2c_read_blocking a len] (s\<lparr>i2c_replies := rest\<rparr>)))"

text \<open>
  The loop of \<open>camera_detect\<close>, by the number of tries left and the current \<open>val\<close>:
  \<^verbatim>\<open>
  while (tries--) {
      int ret = platform->i2c_write_blocking(platform->i2c_handle, OV7670_ADDR, &reg, 1);
      if (ret != 1) { sleep_ms(100); continue; }
      ret = platform->i2c_read_blocking(platform->i2c_handle, OV7670_ADDR, &val, 1);
      if (ret != 1) { sleep_ms(100); continue; }
      if (val == 0x76) break;
      sleep_ms(100);
  }\<close>
\<close>

fun camera_detect_loop :: "nat \<Rightarrow> u8 \<Rightarrow> sys \<Rightarrow> u8 \<times> sys" where
  "camera_detect_loop 0 val s = (val, s)"
| "camera_detect_loop (Suc tries) val s =
     (case i2c_write_blocking OV7670_ADDR [OV7670_REG_PID] s of
        (ret, s1) \<Rightarrow>
          if ret \<noteq> 1 then camera_detect_loop tries val (sleep_ms 100 s1)
          else
            (case i2c_read_blocking OV7670_ADDR 1 s1 of
               ((ret', stored), s2) \<Rightarrow>
                 let val' = (case stored of None \<Rightarrow> val | Some v \<Rightarrow> v)
                 in if ret' \<noteq> 1 then camera_detect_loop tries val' (sleep_ms 100 s2)
                    else if val' = 0x76 then (val', s2)
                    else camera_detect_loop tries val' (sleep_ms 100 s2)))"

definition camera_detect :: "sys \<Rightarrow> bool \<times> sys" where
  "camera_detect s = (case camera_detect_loop 5 0 s of (val, s') \<Rightarrow> (val = 0x76, s'))"

text \<open>
  The two bus functions of the sensor driver (camera.c). \<open>OV7670_write_register\<close>
  discards the result of the transaction. \<open>OV7670_read_register\<close> discards both results
  and returns its local \<open>value\<close>, which is uninitialised unless the read stored a byte.
\<close>

definition OV7670_write_register :: "u8 \<Rightarrow> u8 \<Rightarrow> sys \<Rightarrow> sys" where
  "OV7670_write_register reg val s = snd (i2c_write_blocking OV7670_ADDR [reg, val] s)"

definition OV7670_read_register :: "u8 \<Rightarrow> sys \<Rightarrow> halt + (u8 \<times> sys)" where
  "OV7670_read_register reg s =
     (case i2c_write_blocking OV7670_ADDR [reg] s of
        (ret, s1) \<Rightarrow>
          (case i2c_read_blocking OV7670_ADDR 1 s1 of
             ((ret', stored), s2) \<Rightarrow>
               (case stored of
                  None \<Rightarrow> Inl Uninitialised_value
                | Some v \<Rightarrow> Inr (v, s2))))"

definition OV7670_delay_ms :: "nat \<Rightarrow> sys \<Rightarrow> sys" where
  "OV7670_delay_ms ms = emit [OV7670_delay_ms_call ms]"

definition OV7670_pin_output :: "int \<Rightarrow> sys \<Rightarrow> sys" where
  "OV7670_pin_output pin = emit [OV7670_pin_output_call pin]"

definition OV7670_pin_write :: "int \<Rightarrow> nat \<Rightarrow> sys \<Rightarrow> sys" where
  "OV7670_pin_write pin hi = emit [OV7670_pin_write_call pin hi]"

section \<open>Sensor driver (ov7670.c)\<close>

text \<open>The register addresses and bits of \<open>camera/ov7670.h\<close> that the code below names.\<close>

definition OV7670_REG_VREF :: u8 where "OV7670_REG_VREF = 0x03"
definition OV7670_REG_COM3 :: u8 where "OV7670_REG_COM3 = 0x0C"
definition OV7670_COM3_SCALEEN :: u8 where "OV7670_COM3_SCALEEN = 0x08"
definition OV7670_COM3_DCWEN :: u8 where "OV7670_COM3_DCWEN = 0x04"
definition OV7670_REG_CLKRC :: u8 where "OV7670_REG_CLKRC = 0x11"
definition OV7670_REG_COM7 :: u8 where "OV7670_REG_COM7 = 0x12"
definition OV7670_COM7_RESET :: u8 where "OV7670_COM7_RESET = 0x80"
definition OV7670_REG_HSTART :: u8 where "OV7670_REG_HSTART = 0x17"
definition OV7670_REG_HSTOP :: u8 where "OV7670_REG_HSTOP = 0x18"
definition OV7670_REG_VSTART :: u8 where "OV7670_REG_VSTART = 0x19"
definition OV7670_REG_VSTOP :: u8 where "OV7670_REG_VSTOP = 0x1A"
definition OV7670_REG_HREF :: u8 where "OV7670_REG_HREF = 0x32"
definition OV7670_REG_COM14 :: u8 where "OV7670_REG_COM14 = 0x3E"
definition OV7670_REG_DBLV :: u8 where "OV7670_REG_DBLV = 0x6B"
definition OV7670_REG_SCALING_XSC :: u8 where "OV7670_REG_SCALING_XSC = 0x70"
definition OV7670_REG_SCALING_YSC :: u8 where "OV7670_REG_SCALING_YSC = 0x71"
definition OV7670_REG_SCALING_DCWCTR :: u8 where "OV7670_REG_SCALING_DCWCTR = 0x72"
definition OV7670_REG_SCALING_PCLK_DIV :: u8 where "OV7670_REG_SCALING_PCLK_DIV = 0x73"
definition OV7670_REG_SCALING_PCLK_DELAY :: u8 where "OV7670_REG_SCALING_PCLK_DELAY = 0xA2"
definition OV7670_REG_LAST :: u8 where "OV7670_REG_LAST = 0xFF"

text \<open>
  \<open>OV7670_write_list(platform, cmd)\<close>, by the elements of the array \<open>cmd\<close> from index \<open>i\<close>
  on. \<open>reg\<close> is a \<open>uint8_t\<close> and is compared with \<open>OV7670_REG_LAST\<close>; once the loop has gone
  through the whole array, \<open>cmd[i]\<close> reads past its last element.
  \<^verbatim>\<open>
  for (int i = 0; cmd[i].reg <= OV7670_REG_LAST; i++) {
      OV7670_write_register(platform, cmd[i].reg, cmd[i].value);
      OV7670_delay_ms(1);
  }\<close>
\<close>

fun OV7670_write_list :: "(u8 \<times> u8) list \<Rightarrow> sys \<Rightarrow> halt + sys" where
  "OV7670_write_list [] s = Inl Out_of_bounds"
| "OV7670_write_list (cmd # rest) s =
     (if fst cmd \<le> OV7670_REG_LAST
      then OV7670_write_list rest
             (OV7670_delay_ms 1 (OV7670_write_register (fst cmd) (snd cmd) s))
      else Inr s)"

text \<open>The command tables \<open>OV7670_rgb\<close>, \<open>OV7670_yuv\<close> and \<open>OV7670_init\<close>, as pairs of
  \<open>reg\<close> and \<open>value\<close>, each initialiser reduced to the byte it stores.\<close>

definition OV7670_rgb :: "(u8 \<times> u8) list" where
  "OV7670_rgb =
     [
      (0x12, 0x04),   \<comment> \<open>OV7670_REG_COM7, OV7670_COM7_RGB\<close>
      (0x8C, 0x00),   \<comment> \<open>OV7670_REG_RGB444, 0\<close>
      (0x40, 0xD0),   \<comment> \<open>OV7670_REG_COM15, OV7670_COM15_RGB565 | OV7670_COM15_R00FF\<close>
      (0xFF, 0xFF)    \<comment> \<open>0xFF, 0xFF\<close>
     ]"

definition OV7670_yuv :: "(u8 \<times> u8) list" where
  "OV7670_yuv =
     [
      (0x12, 0x00),   \<comment> \<open>OV7670_REG_COM7, OV7670_COM7_YUV\<close>
      (0x40, 0xC0),   \<comment> \<open>OV7670_REG_COM15, OV7670_COM15_R00FF\<close>
      (0xFF, 0xFF)    \<comment> \<open>0xFF, 0xFF\<close>
     ]"

definition OV7670_init :: "(u8 \<times> u8) list" where
  "OV7670_init =
     [
      (0x3A, 0x04),   \<comment> \<open>OV7670_REG_TSLB, OV7670_TSLB_YLAST\<close>
      (0x7A, 0x20),   \<comment> \<open>OV7670_REG_SLOP, 0x20\<close>
      (0x7B, 0x1C),   \<comment> \<open>OV7670_REG_GAM_BASE, 0x1C\<close>
      (0x7C, 0x28),   \<comment> \<open>OV7670_REG_GAM_BASE + 1, 0x28\<close>
      (0x7D, 0x3C),   \<comment> \<open>OV7670_REG_GAM_BASE + 2, 0x3C\<close>
      (0x7E, 0x55),   \<comment> \<open>OV7670_REG_GAM_BASE + 3, 0x55\<close>
      (0x7F, 0x68),   \<comment> \<open>OV7670_REG_GAM_BASE + 4, 0x68\<close>
      (0x80, 0x76),   \<comment> \<open>OV7670_REG_GAM_BASE + 5, 0x76\<close>
      (0x81, 0x80),   \<comment> \<open>OV7670_REG_GAM_BASE + 6, 0x80\<close>
      (0x82, 0x88),   \<comment> \<open>OV7670_REG_GAM_BASE + 7, 0x88\<close>
      (0x83, 0x8F),   \<comment> \<open>OV7670_REG_GAM_BASE + 8, 0x8F\<close>
      (0x84, 0x96),   \<comment> \<open>OV7670_REG_GAM_BASE + 9, 0x96\<close>
      (0x85, 0xA3),   \<comment> \<open>OV7670_REG_GAM_BASE + 10, 0xA3\<close>
      (0x86, 0xAF),   \<comment> \<open>OV7670_REG_GAM_BASE + 11, 0xAF\<close>
      (0x87, 0xC4),   \<comment> \<open>OV7670_REG_GAM_BASE + 12, 0xC4\<close>
      (0x88, 0xD7),   \<comment> \<open>OV7670_REG_GAM_BASE + 13, 0xD7\<close>
      (0x89, 0xE8),   \<comment> \<open>OV7670_REG_GAM_BASE + 14, 0xE8\<close>
      (0x13, 0xE0),   \<comment> \<open>OV7670_REG_COM8, OV7670_COM8_FASTAEC | OV7670_COM8_AECSTEP | OV7670_COM8_BANDING\<close>
      (0x00, 0x00),   \<comment> \<open>OV7670_REG_GAIN, 0x00\<close>
      (0x09, 0x00),   \<comment> \<open>OV7670_REG_COM2, 0x00\<close>
      (0x0D, 0x00),   \<comment> \<open>OV7670_REG_COM4, 0x00\<close>
      (0x14, 0x20),   \<comment> \<open>OV7670_REG_COM9, 0x20\<close>
      (0x3B, 0x08),   \<comment> \<open>OV7670_REG_COM11, (1 << 3)\<close>
      (0x9D, 0x59),   \<comment> \<open>0x9D, 89\<close>
      (0xA5, 0x05),   \<comment> \<open>OV7670_REG_BD50MAX, 0x05\<close>
      (0xAB, 0x07),   \<comment> \<open>OV7670_REG_BD60MAX, 0x07\<close>
      (0x24, 0x75),   \<comment> \<open>OV7670_REG_AEW, 0x75\<close>
      (0x25, 0x63),   \<comment> \<open>OV7670_REG_AEB, 0x63\<close>
      (0x26, 0xA5),   \<comment> \<open>OV7670_REG_VPT, 0xA5\<close>
      (0x9F, 0x78),   \<comment> \<open>OV7670_REG_HAECC1, 0x78\<close>
      (0xA0, 0x68),   \<comment> \<open>OV7670_REG_HAECC2, 0x68\<close>
      (0xA1, 0x03),   \<comment> \<open>0xA1, 0x03\<close>
      (0xA6, 0xDF),   \<comment> \<open>OV7670_REG_HAECC3, 0xDF\<close>
      (0xA7, 0xDF),   \<comment> \<open>OV7670_REG_HAECC4, 0xDF\<close>
      (0xA8, 0xF0),   \<comment> \<open>OV7670_REG_HAECC5, 0xF0\<close>
      (0xA9, 0x90),   \<comment> \<open>OV7670_REG_HAECC6, 0x90\<close>
      (0xAA, 0x94),   \<comment> \<open>OV7670_REG_HAECC7, 0x94\<close>
      (0x13, 0xE7),   \<comment> \<open>OV7670_REG_COM8, OV7670_COM8_FASTAEC | OV7670_COM8_AECSTEP | OV7670_COM8_BANDING | OV7670_COM8_AGC | OV7670_COM8_AEC | OV7670_COM8_AWB\<close>
      (0x0E, 0x61),   \<comment> \<open>OV7670_REG_COM5, 0x61\<close>
      (0x0F, 0x4B),   \<comment> \<open>OV7670_REG_COM6, 0x4B\<close>
      (0x16, 0x02),   \<comment> \<open>0x16, 0x02\<close>
      (0x1E, 0x07),   \<comment> \<open>OV7670_REG_MVFP, 0x07\<close>
      (0x21, 0x02),   \<comment> \<open>OV7670_REG_ADCCTR1, 0x02\<close>
      (0x22, 0x91),   \<comment> \<open>OV7670_REG_ADCCTR2, 0x91\<close>
      (0x29, 0x07),   \<comment> \<open>0x29, 0x07\<close>
      (0x33, 0x0B),   \<comment> \<open>OV7670_REG_CHLF, 0x0B\<close>
      (0x35, 0x0B),   \<comment> \<open>0x35, 0x0B\<close>
      (0x37, 0x1D),   \<comment> \<open>OV7670_REG_ADC, 0x1D\<close>
      (0x38, 0x71),   \<comment> \<open>OV7670_REG_ACOM, 0x71\<close>
      (0x39, 0x2A),   \<comment> \<open>OV7670_REG_OFON, 0x2A\<close>
      (0x3C, 0x78),   \<comment> \<open>OV7670_REG_COM12, 0x78\<close>
      (0x4D, 0x40),   \<comment> \<open>0x4D, 0x40\<close>
      (0x4E, 0x20),   \<comment> \<open>0x4E, 0x20\<close>
      (0x69, 0x5D),   \<comment> \<open>OV7670_REG_GFIX, 0x5D\<close>
      (0x74, 0x19),   \<comment> \<open>OV7670_REG_REG74, 0x19\<close>
      (0x8D, 0x4F),   \<comment> \<open>0x8D, 0x4F\<close>
      (0x8E, 0x00),   \<comment> \<open>0x8E, 0x00\<close>
      (0x8F, 0x00),   \<comment> \<open>0x8F, 0x00\<close>
      (0x90, 0x00),   \<comment> \<open>0x90, 0x00\<close>
      (0x91, 0x00),   \<comment> \<open>0x91, 0x00\<close>
      (0x92, 0x00),   \<comment> \<open>OV7670_REG_DM_LNL, 0x00\<close>
      (0x96, 0x00),   \<comment> \<open>0x96, 0x00\<close>
      (0x9A, 0x80),   \<comment> \<open>0x9A, 0x80\<close>
      (0xB0, 0x84),   \<comment> \<open>0xB0, 0x84\<close>
      (0xB1, 0x0C),   \<comment> \<open>OV7670_REG_ABLC1, 0x0C\<close>
      (0xB2, 0x0E),   \<comment> \<open>0xB2, 0x0E\<close>
      (0xB3, 0x82),   \<comment> \<open>OV7670_REG_THL_ST, 0x82\<close>
      (0xB8, 0x0A),   \<comment> \<open>0xB8, 0x0A\<close>
      (0x43, 0x14),   \<comment> \<open>OV7670_REG_AWBC1, 0x14\<close>
      (0x44, 0xF0),   \<comment> \<open>OV7670_REG_AWBC2, 0xF0\<close>
      (0x45, 0x34),   \<comment> \<open>OV7670_REG_AWBC3, 0x34\<close>
      (0x46, 0x58),   \<comment> \<open>OV7670_REG_AWBC4, 0x58\<close>
      (0x47, 0x28),   \<comment> \<open>OV7670_REG_AWBC5, 0x28\<close>
      (0x48, 0x3A),   \<comment> \<open>OV7670_REG_AWBC6, 0x3A\<close>
      (0x59, 0x88),   \<comment> \<open>0x59, 0x88\<close>
      (0x5A, 0x88),   \<comment> \<open>0x5A, 0x88\<close>
      (0x5B, 0x44),   \<comment> \<open>0x5B, 0x44\<close>
      (0x5C, 0x67),   \<comment> \<open>0x5C, 0x67\<close>
      (0x5D, 0x49),   \<comment> \<open>0x5D, 0x49\<close>
      (0x5E, 0x0E),   \<comment> \<open>0x5E, 0x0E\<close>
      (0x64, 0x04),   \<comment> \<open>OV7670_REG_LCC3, 0x04\<close>
      (0x65, 0x20),   \<comment> \<open>OV7670_REG_LCC4, 0x20\<close>
      (0x66, 0x05),   \<comment> \<open>OV7670_REG_LCC5, 0x05\<close>
      (0x94, 0x04),   \<comment> \<open>OV7670_REG_LCC6, 0x04\<close>
      (0x95, 0x08),   \<comment> \<open>OV7670_REG_LCC7, 0x08\<close>
      (0x6C, 0x0A),   \<comment> \<open>OV7670_REG_AWBCTR3, 0x0A\<close>
      (0x6D, 0x55),   \<comment> \<open>OV7670_REG_AWBCTR2, 0x55\<close>
      (0x6E, 0x11),   \<comment> \<open>OV7670_REG_AWBCTR1, 0x11\<close>
      (0x6F, 0x9E),   \<comment> \<open>OV7670_REG_AWBCTR0, 0x9E\<close>
      (0x55, 0x00),   \<comment> \<open>OV7670_REG_BRIGHT, 0x00\<close>
      (0x56, 0x40),   \<comment> \<open>OV7670_REG_CONTRAS, 0x40\<close>
      (0x57, 0x80),   \<comment> \<open>OV7670_REG_CONTRAS_CENTER, 0x80\<close>
      (0x00, 0x00)    \<comment> \<open>OV7670_REG_LAST + 1, 0x00\<close>
     ]"

definition OV7670_set_format :: "OV7670_colorspace \<Rightarrow> sys \<Rightarrow> halt + (OV7670_status \<times> sys)" where
  "OV7670_set_format colorspace s =
     (case (if colorspace = OV7670_COLOR_RGB then OV7670_write_list OV7670_rgb s
            else OV7670_write_list OV7670_yuv s) of
        Inl h \<Rightarrow> Inl h
      | Inr s1 \<Rightarrow> Inr (OV7670_STATUS_OK, s1))"

text \<open>The value of an \<open>OV7670_size\<close> as the \<open>uint8_t\<close> that \<open>OV7670_frame_control\<close> takes.\<close>

fun OV7670_size_value :: "OV7670_size \<Rightarrow> u8" where
  "OV7670_size_value OV7670_SIZE_DIV1 = 0"
| "OV7670_size_value OV7670_SIZE_DIV2 = 1"
| "OV7670_size_value OV7670_SIZE_DIV4 = 2"
| "OV7670_size_value OV7670_SIZE_DIV8 = 3"
| "OV7670_size_value OV7670_SIZE_DIV16 = 4"

text \<open>
  \<open>OV7670_frame_control\<close>. The expressions that C evaluates in \<open>int\<close> take values between
  0 and \<open>2\<^sup>1\<^sup>6\<close> here; they are computed in 32-bit words and cut to the eight bits of the
  parameter they are passed for.
\<close>

definition OV7670_frame_control :: "u8 \<Rightarrow> u8 \<Rightarrow> u16 \<Rightarrow> u8 \<Rightarrow> u8 \<Rightarrow> sys \<Rightarrow> halt + sys" where
  "OV7670_frame_control sz vstart hstart edge_offset pclk_delay s =
     (let div1 = OV7670_size_value OV7670_SIZE_DIV1;
          div8 = OV7670_size_value OV7670_SIZE_DIV8;
          div16 = OV7670_size_value OV7670_SIZE_DIV16;
          value1 = (if sz > div1 then OV7670_COM3_DCWEN else 0);
          value2 = (if sz = div16 then value1 OR OV7670_COM3_SCALEEN else value1);
          s1 = OV7670_write_register OV7670_REG_COM3 value2 s;
          value3 = (if sz > div1 then 0x18 + sz else 0);
          s2 = OV7670_write_register OV7670_REG_COM14 value3 s1;
          value4 = (if sz \<le> div8 then sz else div8);
          s3 = OV7670_write_register OV7670_REG_SCALING_DCWCTR (value4 * 0x11) s2;
          value5 = (if sz > div1 then 0xF0 + sz else 0x08);
          s4 = OV7670_write_register OV7670_REG_SCALING_PCLK_DIV value5 s3;
          value6 = (if sz = div16 then 0x40 else 0x20)
      in case OV7670_read_register OV7670_REG_SCALING_XSC s4 of
           Inl h \<Rightarrow> Inl h
         | Inr (xsc, s5) \<Rightarrow>
             (case OV7670_read_register OV7670_REG_SCALING_YSC s5 of
                Inl h \<Rightarrow> Inl h
              | Inr (ysc, s6) \<Rightarrow>
                  let s7 = OV7670_write_register OV7670_REG_SCALING_XSC ((xsc AND 0x80) OR value6) s6;
                      s8 = OV7670_write_register OV7670_REG_SCALING_YSC ((ysc AND 0x80) OR value6) s7;
                      vstart32 = (ucast vstart :: u32);
                      hstart32 = (ucast hstart :: u32);
                      vstop = (ucast (vstart32 + 480 :: u32) :: u16);
                      hstop = (ucast ((hstart32 + 640) mod 784 :: u32) :: u16);
                      vstop32 = (ucast vstop :: u32);
                      hstop32 = (ucast hstop :: u32);
                      s9 = OV7670_write_register OV7670_REG_HSTART (ucast (drop_bit 3 hstart32)) s8;
                      s10 = OV7670_write_register OV7670_REG_HSTOP (ucast (drop_bit 3 hstop32)) s9;
                      s11 = OV7670_write_register OV7670_REG_HREF
                              (ucast (push_bit 6 (ucast edge_offset :: u32)
                                      OR push_bit 3 (hstop32 AND 7) OR (hstart32 AND 7))) s10;
                      s12 = OV7670_write_register OV7670_REG_VSTART (ucast (drop_bit 2 vstart32)) s11;
                      s13 = OV7670_write_register OV7670_REG_VSTOP (ucast (drop_bit 2 vstop32)) s12;
                      s14 = OV7670_write_register OV7670_REG_VREF
                              (ucast (push_bit 2 (vstop32 AND 3) OR (vstart32 AND 3))) s13
                  in Inr (OV7670_write_register OV7670_REG_SCALING_PCLK_DELAY pclk_delay s14)))"

text \<open>\<open>OV7670_set_size\<close>, with the row of its table \<open>window\<close> for each size: \<open>vstart\<close>,
  \<open>hstart\<close>, \<open>edge_offset\<close>, \<open>pclk_delay\<close>.\<close>

fun window :: "OV7670_size \<Rightarrow> u8 \<times> u8 \<times> u8 \<times> u8" where
  "window OV7670_SIZE_DIV1 = (9, 162, 2, 2)"
| "window OV7670_SIZE_DIV2 = (10, 174, 4, 2)"
| "window OV7670_SIZE_DIV4 = (11, 186, 2, 2)"
| "window OV7670_SIZE_DIV8 = (12, 210, 0, 2)"
| "window OV7670_SIZE_DIV16 = (15, 252, 3, 2)"

definition OV7670_set_size :: "OV7670_size \<Rightarrow> sys \<Rightarrow> halt + sys" where
  "OV7670_set_size sz s =
     (case window sz of
        (vstart, hstart, edge_offset, pclk_delay) \<Rightarrow>
          OV7670_frame_control (OV7670_size_value sz) vstart (ucast hstart) edge_offset pclk_delay s)"

text \<open>
  \<open>OV7670_begin(host, colorspace, size, fps)\<close>; \<open>pins\<close> is \<open>*host->pins\<close>. The parameter
  \<open>fps\<close> is not used by the function.
\<close>

definition OV7670_begin ::
  "OV7670_pins \<Rightarrow> OV7670_colorspace \<Rightarrow> OV7670_size \<Rightarrow> sys \<Rightarrow> halt + (OV7670_status \<times> sys)"
where
  "OV7670_begin pins colorspace sz s =
     (let s1 = OV7670_delay_ms 300 s;
          s2 = (if enable pins \<ge> 0
                then OV7670_delay_ms 300
                       (OV7670_pin_write (enable pins) 0 (OV7670_pin_output (enable pins) s1))
                else s1);
          s3 = (if reset pins \<ge> 0
                then OV7670_pin_write (reset pins) 1
                       (OV7670_delay_ms 1
                          (OV7670_pin_write (reset pins) 0 (OV7670_pin_output (reset pins) s2)))
                else OV7670_write_register OV7670_REG_COM7 OV7670_COM7_RESET s2);
          s4 = OV7670_delay_ms 1000 s3;
          s5 = OV7670_write_register OV7670_REG_CLKRC 1 s4;
          s6 = OV7670_write_register OV7670_REG_DBLV (push_bit 6 1) s5
      in case OV7670_set_format colorspace s6 of
           Inl h \<Rightarrow> Inl h
         | Inr (status, s7) \<Rightarrow>
             (case OV7670_write_list OV7670_init s7 of
                Inl h \<Rightarrow> Inl h
              | Inr s8 \<Rightarrow>
                  (case OV7670_set_size sz s8 of
                     Inl h \<Rightarrow> Inl h
                   | Inr s9 \<Rightarrow> Inr (OV7670_STATUS_OK, OV7670_delay_ms 300 s9))))"

section \<open>Initialisation and release (camera.c)\<close>

text \<open>
  The SDK's claim bitmap of DMA channels. \<open>dma_channel_claim\<close> panics when the channel
  is already claimed; \<open>dma_claim_unused_channel(true)\<close> takes the lowest free channel and
  panics when there is none; \<open>dma_channel_unclaim\<close> clears the channel's bit (its
  \<open>assert\<close> that the bit was set is compiled out of release builds).
\<close>

definition dma_channel_claim :: "int \<Rightarrow> sys \<Rightarrow> halt + sys" where
  "dma_channel_claim channel s =
     (if channel \<in> dma_claimed s then Inl Sdk_panic
      else Inr (emit [Dma_channel_claim channel] (s\<lparr>dma_claimed := insert channel (dma_claimed s)\<rparr>)))"

definition dma_claim_unused_channel :: "sys \<Rightarrow> halt + (int \<times> sys)" where
  "dma_claim_unused_channel s =
     (case find (\<lambda>ch. ch \<notin> dma_claimed s) (map int [0..<NUM_DMA_CHANNELS]) of
        None \<Rightarrow> Inl Sdk_panic
      | Some ch \<Rightarrow>
          Inr (ch, emit [Dma_claim_unused_channel ch] (s\<lparr>dma_claimed := insert ch (dma_claimed s)\<rparr>)))"

definition dma_channel_unclaim :: "int \<Rightarrow> sys \<Rightarrow> sys" where
  "dma_channel_unclaim channel s =
     emit [Dma_channel_unclaim channel] (s\<lparr>dma_claimed := dma_claimed s - {channel}\<rparr>)"

text \<open>
  The two channel loops of \<open>camera_init\<close>, over the indices still to do:
  \<^verbatim>\<open>
  for (int i = 0; i < CAMERA_MAX_N_PLANES; i++) {
      dma_channel_claim(params->base_dma_channel + i);
      camera->dma_channels[i] = params->base_dma_channel + i;
  }\<close>
  and
  \<^verbatim>\<open>
  for (int i = 0; i < CAMERA_MAX_N_PLANES; i++) {
      camera->dma_channels[i] = dma_claim_unused_channel(true);
  }\<close>
\<close>

fun claim_from_base :: "int \<Rightarrow> nat list \<Rightarrow> int list \<Rightarrow> sys \<Rightarrow> halt + (int list \<times> sys)" where
  "claim_from_base base [] chans s = Inr (chans, s)"
| "claim_from_base base (i # rest) chans s =
     (case dma_channel_claim (base + int i) s of
        Inl h \<Rightarrow> Inl h
      | Inr s1 \<Rightarrow> claim_from_base base rest (chans[i := base + int i]) s1)"

fun claim_unused :: "nat list \<Rightarrow> int list \<Rightarrow> sys \<Rightarrow> halt + (int list \<times> sys)" where
  "claim_unused [] chans s = Inr (chans, s)"
| "claim_unused (i # rest) chans s =
     (case dma_claim_unused_channel s of
        Inl h \<Rightarrow> Inl h
      | Inr (ch, s1) \<Rightarrow> claim_unused rest (chans[i := ch]) s1)"

text \<open>
  \<open>camera_pio_init\<close>, for the context at address \<open>p\<close> with contents \<open>c\<close>; it returns the
  context with the two program offsets set.
\<close>

definition camera_pio_init ::
  "sdk \<Rightarrow> addr \<Rightarrow> camera \<Rightarrow> camera_platform_config \<Rightarrow> sys \<Rightarrow> halt + (camera \<times> sys)"
where
  "camera_pio_init K p c params s =
     (if \<not> (pio params = pio0 \<or> pio params = pio1) then Inl Hard_assert
      else
        let c1 = c\<lparr>shift_byte_offset := pio_add_program K (pio params) camera_pio_read_byte_program\<rparr>;
            c2 = c1\<lparr>frame_offset := pio_add_program K (pio params) camera_pio_frame_program\<rparr>;
            s1 = emit ([Pio_add_program (pio params) camera_pio_read_byte_program,
                        Pio_add_program (pio params) camera_pio_frame_program]
                       @ map (\<lambda>i. Camera_pio_init_gpios (pio params) i (base_pin params)) [0..<4]
                       @ [Pio_write_inte0 (pio params) (push_bit (8 + CAMERA_PIO_FRAME_SM) 1)]) s
        in if pio params = pio0 then
             Inr (c2, irq_set_enabled PIO0_IRQ_0 True
                        (emit [Irq_set_exclusive_handler PIO0_IRQ_0 camera_isr_pio0_handler]
                           (s1\<lparr>irq_ctxs := (irq_ctxs s1)[0 := Some p]\<rparr>)))
           else
             Inr (c2, irq_set_enabled PIO1_IRQ_0 True
                        (emit [Irq_set_exclusive_handler PIO1_IRQ_0 camera_isr_pio1_handler]
                           (s1\<lparr>irq_ctxs := (irq_ctxs s1)[1 := Some p]\<rparr>))))"

text \<open>\<open>(struct camera_config){ 0 }\<close> and \<open>(struct camera){ 0 }\<close>.\<close>

definition zero_dma_channel_config :: dma_channel_config where
  "zero_dma_channel_config =
     \<lparr>transfer_data_size = DMA_SIZE_8, read_increment = False, write_increment = False,
      dreq = 0, ctrl_rest = 0\<rparr>"

definition zero_pio_sm_config :: pio_sm_config where
  "zero_pio_sm_config = \<lparr>clkdiv = 0, execctrl = 0, shiftctrl = 0, pinctrl = 0\<rparr>"

definition zero_camera_config :: camera_config where
  "zero_camera_config =
     \<lparr>cfg_format = 0, cfg_width = 0, cfg_height = 0,
      dma_transfers = replicate CAMERA_MAX_N_PLANES 0,
      dma_offset = replicate CAMERA_MAX_N_PLANES 0,
      dma_cfgs = replicate CAMERA_MAX_N_PLANES zero_dma_channel_config,
      sm_cfgs = replicate 4 zero_pio_sm_config\<rparr>"

definition zero_camera :: camera where
  "zero_camera =
     \<lparr>platform = None, frame_offset = 0, shift_byte_offset = 0,
      dma_channels = replicate CAMERA_MAX_N_PLANES 0,
      config = zero_camera_config,
      pending = None, pending_cb = None, cb_data = None\<rparr>"

text \<open>
  \<open>camera_init(camera, params)\<close> for \<open>camera\<close> pointing to address \<open>p\<close>. The result is the
  returned \<open>int\<close> and the new state, or the way the call halted. \<open>OV7670_begin\<close> is given
  the pins \<open>{ .enable = -1, .reset = -1 }\<close>.
\<close>

definition camera_init :: "sdk \<Rightarrow> addr \<Rightarrow> camera_platform_config \<Rightarrow> sys \<Rightarrow> halt + (int \<times> sys)" where
  "camera_init K p params s =
     (let s1 = emit [Clock_gpio_init (xclk_pin params) (xclk_divider params)]
                 (s\<lparr>cameras := (cameras s)(p \<mapsto> zero_camera)\<rparr>);
          c = zero_camera\<lparr>platform := Some params\<rparr>;
          s2 = sleep_ms 300 (s1\<lparr>cameras := (cameras s1)(p \<mapsto> c)\<rparr>)
      in case camera_detect s2 of
           (detected, s3) \<Rightarrow>
             if \<not> detected then Inr (- 1, s3)
             else
               (case OV7670_begin \<lparr>enable = - 1, reset = - 1\<rparr>
                       OV7670_COLOR_RGB OV7670_SIZE_DIV8 s3 of
                  Inl h \<Rightarrow> Inl h
                | Inr (status, s4) \<Rightarrow>
                    if status \<noteq> OV7670_STATUS_OK then Inr (- 1, s4)
                    else
                      (case (if base_dma_channel params \<ge> 0
                             then claim_from_base (base_dma_channel params)
                                    [0..<CAMERA_MAX_N_PLANES] (dma_channels c) s4
                             else claim_unused [0..<CAMERA_MAX_N_PLANES] (dma_channels c) s4) of
                         Inl h \<Rightarrow> Inl h
                       | Inr (chans, s5) \<Rightarrow>
                           let c1 = c\<lparr>dma_channels := chans\<rparr>;
                               s6 = s5\<lparr>cameras := (cameras s5)(p \<mapsto> c1)\<rparr>
                           in (case camera_pio_init K p c1 params s6 of
                                 Inl h \<Rightarrow> Inl h
                               | Inr (c2, s7) \<Rightarrow>
                                   Inr (0, s7\<lparr>cameras := (cameras s7)(p \<mapsto> c2)\<rparr>)))))"

text \<open>
  The release loop of \<open>camera_term\<close>, over the indices still to do:
  \<^verbatim>\<open>
  for (int i = 0; i < CAMERA_MAX_N_PLANES; i++) {
      if (camera->dma_channels[i] >= 0) {
          dma_channel_unclaim(camera->dma_channels[i]);
          camera->dma_channels[i] = -1;
      }
  }\<close>
\<close>

fun unclaim_channels :: "nat list \<Rightarrow> int list \<Rightarrow> sys \<Rightarrow> int list \<times> sys" where
  "unclaim_channels [] chans s = (chans, s)"
| "unclaim_channels (i # rest) chans s =
     (if chans ! i \<ge> 0
      then unclaim_channels rest (chans[i := - 1]) (dma_channel_unclaim (chans ! i) s)
      else unclaim_channels rest chans s)"

text \<open>\<open>camera_term(camera)\<close>; \<open>camera\<close> is the pointer passed, \<open>None\<close> for NULL.\<close>

definition camera_term :: "addr option \<Rightarrow> sys \<Rightarrow> halt + sys" where
  "camera_term camera s =
     (case camera of
        None \<Rightarrow> Inr s
      | Some p \<Rightarrow>
          (case cameras s p of
             None \<Rightarrow> Inl Bad_pointer
           | Some c \<Rightarrow>
               (case platform c of
                  None \<Rightarrow> Inl Bad_pointer
                | Some plat \<Rightarrow>
                    let num_planes = unat (format_num_planes (cfg_format (config c)));
                        s1 = emit (map (\<lambda>i. Pio_sm_set_enabled (pio plat) (i + 1) False) [0..<num_planes]
                                   @ [Pio_sm_set_enabled (pio plat) CAMERA_PIO_FRAME_SM False]) s;
                        s2 = (if pio plat = pio0
                              then (irq_set_enabled PIO0_IRQ_0 False s1)
                                     \<lparr>irq_ctxs := (irq_ctxs s1)[0 := None]\<rparr>
                              else if pio plat = pio1
                              then (irq_set_enabled PIO1_IRQ_0 False s1)
                                     \<lparr>irq_ctxs := (irq_ctxs s1)[1 := None]\<rparr>
                              else s1)
                    in (case unclaim_channels [0..<CAMERA_MAX_N_PLANES] (dma_channels c) s2 of
                          (chans, s3) \<Rightarrow>
                            Inr (s3\<lparr>cameras := (cameras s3)
                                      (p \<mapsto> c\<lparr>dma_channels := chans, pending := None,
                                              pending_cb := None, cb_data := None\<rparr>)\<rparr>)))))"

section \<open>Configuration (camera.c)\<close>

definition ov7670_colorspace_from_format :: "u32 \<Rightarrow> OV7670_colorspace" where
  "ov7670_colorspace_from_format format =
     (if format = FORMAT_RGB565 then OV7670_COLOR_RGB
      else if format = FORMAT_YUYV then OV7670_COLOR_YUV
      else if format = FORMAT_YUV422 then OV7670_COLOR_YUV
      else OV7670_COLOR_RGB)"   \<comment> \<open>\<open>return 0\<close>\<close>

definition camera_transfer_size :: "u32 \<Rightarrow> u8 \<Rightarrow> dma_channel_transfer_size" where
  "camera_transfer_size format plane =
     (if format = FORMAT_YUYV then DMA_SIZE_32
      else if format = FORMAT_RGB565 then DMA_SIZE_32
      else if format = FORMAT_YUV422 then (if plane \<noteq> 0 then DMA_SIZE_8 else DMA_SIZE_16)
      else DMA_SIZE_8)"   \<comment> \<open>\<open>return 0\<close>\<close>

text \<open>\<open>__dma_transfer_size_to_bytes\<close>.\<close>

definition dma_transfer_size_to_bytes :: "dma_channel_transfer_size \<Rightarrow> u8" where
  "dma_transfer_size_to_bytes dma =
     (case dma of DMA_SIZE_8 \<Rightarrow> 1 | DMA_SIZE_16 \<Rightarrow> 2 | DMA_SIZE_32 \<Rightarrow> 4)"

definition camera_get_pixel_loop :: "u32 \<Rightarrow> pio_program option" where
  "camera_get_pixel_loop format =
     (if format = FORMAT_YUYV then Some pixel_loop_yuyv_program
      else if format = FORMAT_RGB565 then Some pixel_loop_yuyv_program
      else if format = FORMAT_YUV422 then Some pixel_loop_yu16_program
      else None)"

text \<open>\<open>camera_pio_configure\<close> reads the context and acts on the PIO block only. It is
  called once the platform pointer has been read, which is passed as \<open>plat\<close>.\<close>

definition camera_pio_configure :: "camera \<Rightarrow> camera_platform_config \<Rightarrow> sys \<Rightarrow> sys" where
  "camera_pio_configure c plat =
     (let num_planes = unat (format_num_planes (cfg_format (config c)))
      in emit
           ([Pio_set_sm_mask_enabled (pio plat) 0xf False, Pio_restart_sm_mask (pio plat) 0xf]
            @ map (\<lambda>i. Pio_sm_clear_fifos (pio plat) i) [0..<4]
            @ [Camera_pio_patch_pixel_loop (pio plat) (frame_offset c)
                 (camera_get_pixel_loop (cfg_format (config c)))]
            @ concat (map (\<lambda>i. [Pio_sm_init (pio plat) (i + 1) (shift_byte_offset c)
                                    (sm_cfgs (config c) ! (i + 1)),
                                  Pio_sm_set_enabled (pio plat) (i + 1) True])
                        [0..<num_planes])
            @ [Pio_sm_init (pio plat) CAMERA_PIO_FRAME_SM (frame_offset c)
                 (sm_cfgs (config c) ! CAMERA_PIO_FRAME_SM),
               Pio_sm_set_enabled (pio plat) CAMERA_PIO_FRAME_SM True]))"

text \<open>
  One turn of the plane loop of \<open>camera_configure\<close>, on the configuration being built:
  \<^verbatim>\<open>
  enum dma_channel_transfer_size xfer_size = camera_transfer_size(format, i);
  dma_channel_config c = dma_channel_get_default_config(camera->dma_channels[i]);
  channel_config_set_transfer_data_size(&c, xfer_size);
  channel_config_set_read_increment(&c, false);
  channel_config_set_write_increment(&c, true);
  channel_config_set_dreq(&c, pio_get_dreq(platform->pio, i + 1, false));
  camera->config.dma_cfgs[i] = c;
  uint8_t xfer_bytes = __dma_transfer_size_to_bytes(xfer_size);
  camera->config.dma_offset[i] = 4 - xfer_bytes,
  camera->config.dma_transfers[i] = format_plane_size(format, i, width, height) / xfer_bytes,
  camera->config.sm_cfgs[i + 1] = camera_pio_get_read_byte_sm_config(platform->pio, i + 1,
                      camera->shift_byte_offset, platform->base_pin, xfer_bytes * 8);\<close>
  \<open>4 - xfer_bytes\<close> is computed in \<open>int\<close> and stored in a \<open>uint\<close>; the division is
  unsigned, \<open>xfer_bytes\<close> being converted to \<open>unsigned int\<close>.
\<close>

definition configure_plane ::
  "sdk \<Rightarrow> camera \<Rightarrow> camera_platform_config \<Rightarrow> u32 \<Rightarrow> u16 \<Rightarrow> u16 \<Rightarrow> nat
     \<Rightarrow> camera_config \<Rightarrow> camera_config"
where
  "configure_plane K c plat format width height i cfg =
     (let xfer_size = camera_transfer_size format (of_nat i);
          c0 = dma_channel_get_default_config K (dma_channels c ! i);
          c1 = c0\<lparr>transfer_data_size := xfer_size\<rparr>;
          c2 = c1\<lparr>read_increment := False\<rparr>;
          c3 = c2\<lparr>write_increment := True\<rparr>;
          c4 = c3\<lparr>dreq := pio_get_dreq K (pio plat) (i + 1) False\<rparr>;
          xfer_bytes = dma_transfer_size_to_bytes xfer_size
      in cfg\<lparr>dma_cfgs := (dma_cfgs cfg)[i := c4],
              dma_offset := (dma_offset cfg)[i := 4 - ucast xfer_bytes],
              dma_transfers := (dma_transfers cfg)
                 [i := format_plane_size format (of_nat i) width height div ucast xfer_bytes],
              sm_cfgs := (sm_cfgs cfg)
                 [i + 1 := camera_pio_get_read_byte_sm_config K (pio plat) (i + 1)
                             (shift_byte_offset c) (base_pin plat) (unat xfer_bytes * 8)]\<rparr>)"

text \<open>\<open>camera_configure(camera, format, width, height)\<close> for \<open>camera\<close> pointing to \<open>p\<close>.\<close>

definition camera_configure :: "sdk \<Rightarrow> addr \<Rightarrow> u32 \<Rightarrow> u16 \<Rightarrow> u16 \<Rightarrow> sys \<Rightarrow> halt + (int \<times> sys)" where
  "camera_configure K p format width height s =
     (if width \<noteq> CAMERA_WIDTH_DIV8 \<or> height \<noteq> CAMERA_HEIGHT_DIV8 then Inr (- 1, s)
      else
        (case cameras s p of
           None \<Rightarrow> Inl Bad_pointer
         | Some c \<Rightarrow>
             (case platform c of
                None \<Rightarrow> Inl Bad_pointer
              | Some plat \<Rightarrow>
                  (case OV7670_set_format (ov7670_colorspace_from_format format) s of
                     Inl h \<Rightarrow> Inl h
                   | Inr (status, s1) \<Rightarrow>
                       (case OV7670_set_size OV7670_SIZE_DIV8 s1 of
                          Inl h \<Rightarrow> Inl h
                        | Inr s2 \<Rightarrow>
                            let cfg0 = (config c)\<lparr>sm_cfgs := (sm_cfgs (config c))
                                     [CAMERA_PIO_FRAME_SM :=
                                        camera_pio_get_frame_sm_config K (pio plat)
                                          CAMERA_PIO_FRAME_SM (frame_offset c) (base_pin plat)]\<rparr>;
                                num_planes = unat (format_num_planes format);
                                cfg1 = fold (configure_plane K c plat format width height)
                                         [0..<num_planes] cfg0;
                                cfg2 = cfg1\<lparr>cfg_format := format, cfg_width := width,
                                             cfg_height := height\<rparr>;
                                c' = c\<lparr>config := cfg2\<rparr>;
                                s3 = s2\<lparr>cameras := (cameras s2)(p \<mapsto> c')\<rparr>
                            in Inr (0, camera_pio_configure c' plat s3))))))"

section \<open>Capture (camera.c)\<close>

definition camera_pixels_per_chunk :: "u32 \<Rightarrow> u8" where
  "camera_pixels_per_chunk format =
     (if format = FORMAT_YUYV then 2
      else if format = FORMAT_RGB565 then 2
      else if format = FORMAT_YUV422 then 2
      else 1)"

text \<open>
  Delivery of the frame-completion interrupt of a PIO block: the handler installed by
  \<open>camera_pio_init\<close> for the block's interrupt line runs if the line is enabled.
\<close>

definition frame_irq :: "cb_table \<Rightarrow> PIO \<Rightarrow> sys \<Rightarrow> halt + sys" where
  "frame_irq cbs pio_blk s =
     (case pio_blk of
        pio0 \<Rightarrow> if irq_enabled s ! irq_index PIO0_IRQ_0 then camera_isr_pio0 cbs s else Inr s
      | pio1 \<Rightarrow> if irq_enabled s ! irq_index PIO1_IRQ_0 then camera_isr_pio1 cbs s else Inr s
      | pio_invalid \<Rightarrow> Inr s)"

text \<open>
  The wait of a blocking capture:
  \<^verbatim>\<open>
  while (camera->pending) { sleep_ms(1); }\<close>
  The frame-completion interrupt is taken once, after the number of completed
  \<open>sleep_ms(1)\<close> given by the first argument; if the slot is still occupied after it, the
  loop never ends.
\<close>

fun wait_pending :: "nat \<Rightarrow> cb_table \<Rightarrow> addr \<Rightarrow> PIO \<Rightarrow> sys \<Rightarrow> halt + sys" where
  "wait_pending 0 cbs p pio_blk s =
     (case frame_irq cbs pio_blk s of
        Inl h \<Rightarrow> Inl h
      | Inr s1 \<Rightarrow>
          (case cameras s1 p of
             None \<Rightarrow> Inl Bad_pointer
           | Some c \<Rightarrow> if pending c = None then Inr s1 else Inl Never_returns))"
| "wait_pending (Suc n) cbs p pio_blk s =
     (case cameras s p of
        None \<Rightarrow> Inl Bad_pointer
      | Some c \<Rightarrow>
          if pending c = None then Inr s
          else wait_pending n cbs p pio_blk (sleep_ms 1 s))"

text \<open>
  \<open>camera_do_frame(camera, buf, complete_cb, cb_data, allow_reconfigure, blocking)\<close> for
  \<open>camera\<close> pointing to \<open>p\<close> and \<open>buf\<close> pointing to \<open>bufp\<close>, where the buffer struct has
  the contents \<open>buf\<close>. \<open>irq\<close> says after how many polls of a blocking wait the
  frame-completion interrupt arrives, \<open>None\<close> if it never does. The value returned by the
  implicit \<open>camera_configure\<close> is discarded, as in the source.
\<close>

definition camera_do_frame ::
  "sdk \<Rightarrow> cb_table \<Rightarrow> nat option \<Rightarrow> addr \<Rightarrow> addr \<Rightarrow> camera_buffer \<Rightarrow> fn_ptr option \<Rightarrow> addr option
     \<Rightarrow> bool \<Rightarrow> bool \<Rightarrow> sys \<Rightarrow> halt + (int \<times> sys)"
where
  "camera_do_frame K cbs irq p bufp buf complete_cb cb_dat allow_reconfigure blocking s =
     (case cameras s p of
        None \<Rightarrow> Inl Bad_pointer
      | Some c \<Rightarrow>
          if pending c \<noteq> None then Inr (- 2, s)
          else
            let differs = cfg_format (config c) \<noteq> buf_format buf
                          \<or> cfg_width (config c) \<noteq> buf_width buf
                          \<or> cfg_height (config c) \<noteq> buf_height buf
            in if differs \<and> \<not> allow_reconfigure then Inr (- 1, s)
               else
                 (case (if differs
                        then camera_configure K p (buf_format buf) (buf_width buf) (buf_height buf) s
                        else Inr (0, s)) of
                    Inl h \<Rightarrow> Inl h
                  | Inr (_, s1) \<Rightarrow>
                      (case cameras s1 p of
                         None \<Rightarrow> Inl Bad_pointer
                       | Some c1 \<Rightarrow>
                           (case platform c1 of
                              None \<Rightarrow> Inl Bad_pointer
                            | Some plat \<Rightarrow>
                                let num_planes = unat (format_num_planes (cfg_format (config c1)));
                                    s2 = emit (map (\<lambda>i. Dma_channel_configure (dma_channels c1 ! i)
                                                          (dma_cfgs (config c1) ! i) (data buf ! i)
                                                          (pio plat) (i + 1) (dma_offset (config c1) ! i)
                                                          (dma_transfers (config c1) ! i) True)
                                                 [0..<num_planes]) s1;
                                    num_loops = ucast (buf_width buf)
                                                  div ucast (camera_pixels_per_chunk (buf_format buf));
                                    c2 = c1\<lparr>pending := Some bufp, pending_cb := complete_cb,
                                            cb_data := cb_dat\<rparr>;
                                    s3 = s2\<lparr>cameras := (cameras s2)(p \<mapsto> c2)\<rparr>;
                                    s4 = emit [Camera_pio_trigger_frame (pio plat) num_loops
                                                 (ucast (buf_height buf))] s3
                                in if blocking then
                                     (case irq of
                                        None \<Rightarrow> Inl Never_returns
                                      | Some n \<Rightarrow>
                                          (case wait_pending n cbs p (pio plat) s4 of
                                             Inl h \<Rightarrow> Inl h
                                           | Inr s5 \<Rightarrow> Inr (0, s5)))
                                   else Inr (0, s4)))))"

definition camera_capture_blocking ::
  "sdk \<Rightarrow> cb_table \<Rightarrow> nat option \<Rightarrow> addr \<Rightarrow> addr \<Rightarrow> camera_buffer \<Rightarrow> bool \<Rightarrow> sys
     \<Rightarrow> halt + (int \<times> sys)"
where
  "camera_capture_blocking K cbs irq p intop into allow_reconfigure =
     camera_do_frame K cbs irq p intop into None None allow_reconfigure True"

definition camera_capture_with_cb ::
  "sdk \<Rightarrow> cb_table \<Rightarrow> nat option \<Rightarrow> addr \<Rightarrow> addr \<Rightarrow> camera_buffer \<Rightarrow> bool \<Rightarrow> fn_ptr option
     \<Rightarrow> addr option \<Rightarrow> sys \<Rightarrow> halt + (int \<times> sys)"
where
  "camera_capture_with_cb K cbs irq p intop into allow_reconfigure complete_cb cb_dat =
     camera_do_frame K cbs irq p intop into complete_cb cb_dat allow_reconfigure False"

text \<open>The arrays of a \<open>struct camera\<close> have their declared numbers of entries.\<close>

definition camera_arrays_ok :: "camera \<Rightarrow> bool" where
  "camera_arrays_ok c \<longleftrightarrow>
     length (dma_channels c) = CAMERA_MAX_N_PLANES
     \<and> length (dma_transfers (config c)) = CAMERA_MAX_N_PLANES
     \<and> length (dma_offset (config c)) = CAMERA_MAX_N_PLANES
     \<and> length (dma_cfgs (config c)) = CAMERA_MAX_N_PLANES
     \<and> length (sm_cfgs (config c)) = 4"

section \<open>Auxiliary notions for the statements\<close>

text \<open>
  An instance of the SDK functions, to run the driver on concrete inputs: the
  data-request numbers and the default channel configuration of the RP2040 SDK, program
  offsets 0 and 4, and state-machine configurations that keep the arguments they were
  computed from.
\<close>

definition sdk_instance :: sdk where
  "sdk_instance =
     \<lparr>pio_add_program = (\<lambda>pio_blk prog. if prog = camera_pio_frame_program then 4 else 0),
      pio_get_dreq = (\<lambda>pio_blk sm is_tx.
         sm + (if is_tx then 0 else 4) + (if pio_blk = pio0 then 0 else 8)),
      dma_channel_get_default_config = (\<lambda>channel.
         \<lparr>transfer_data_size = DMA_SIZE_32, read_increment = True, write_increment = False,
          dreq = 0x3f, ctrl_rest = 0\<rparr>),
      camera_pio_get_frame_sm_config = (\<lambda>pio_blk sm offset pin.
         \<lparr>clkdiv = of_nat sm, execctrl = of_nat offset, shiftctrl = 0, pinctrl = of_nat pin\<rparr>),
      camera_pio_get_read_byte_sm_config = (\<lambda>pio_blk sm offset pin bits.
         \<lparr>clkdiv = of_nat sm, execctrl = of_nat offset, shiftctrl = of_nat bits,
          pinctrl = of_nat pin\<rparr>)\<rparr>"

text \<open>A platform configuration on PIO block 0 with dynamic DMA channel allocation, and
  a system before any driver call: no context, nothing registered, enabled or claimed.\<close>

definition platform_instance :: camera_platform_config where
  "platform_instance =
     \<lparr>pio = pio0, xclk_pin = 21, xclk_divider = 9, base_pin = 10, base_dma_channel = - 1\<rparr>"

definition sys_reset :: sys where
  "sys_reset =
     \<lparr>cameras = Map.empty, irq_ctxs = [None, None], irq_enabled = [False, False],
      dma_claimed = {}, i2c_replies = [], trace = []\<rparr>"

text \<open>The contents of a context on \<open>platform_instance\<close> that holds DMA channels 0, 1
  and 2 and the program offsets of \<open>sdk_instance\<close> and has no configuration yet, and a
  system holding it at address 1, registered and enabled for the interrupt of PIO
  block 0.\<close>

definition camera_instance :: camera where
  "camera_instance =
     zero_camera\<lparr>platform := Some platform_instance, frame_offset := 4, shift_byte_offset := 0,
                 dma_channels := [0, 1, 2]\<rparr>"

definition sys_instance :: sys where
  "sys_instance =
     \<lparr>cameras = [1 \<mapsto> camera_instance], irq_ctxs = [Some 1, None],
      irq_enabled = [True, False], dma_claimed = {0, 1, 2}, i2c_replies = [], trace = []\<rparr>"

text \<open>The same system while a capture into the buffer at address 7 is pending, with
  completion callback 3 and user data at address 9.\<close>

definition camera_capturing :: camera where
  "camera_capturing = camera_instance\<lparr>pending := Some 7, pending_cb := Some 3, cb_data := Some 9\<rparr>"

definition sys_capturing :: sys where
  "sys_capturing = sys_instance\<lparr>cameras := [1 \<mapsto> camera_capturing]\<rparr>"

text \<open>Callbacks that leave the system as it is.\<close>

definition cbs_skip :: cb_table where
  "cbs_skip f b d s = s"

text \<open>The contents of two buffers of the packed 16-bit colour format: one of 80 by 60
  pixels, one of 160 by 120 pixels.\<close>

definition buffer_80x60 :: camera_buffer where
  "buffer_80x60 =
     \<lparr>buf_format = FORMAT_RGB565, buf_width = 80, buf_height = 60,
      strides = [160, 0, 0], sizes = [9600, 0, 0], data = [Some 100, None, None]\<rparr>"

definition buffer_160x120 :: camera_buffer where
  "buffer_160x120 =
     \<lparr>buf_format = FORMAT_RGB565, buf_width = 160, buf_height = 120,
      strides = [320, 0, 0], sizes = [38400, 0, 0], data = [Some 200, None, None]\<rparr>"

text \<open>A system before any driver call in which other code holds DMA channel 0, and
  whose bus gives no reply (no sensor answers).\<close>

definition sys_channel0_taken :: sys where
  "sys_channel0_taken = sys_reset\<lparr>dma_claimed := {0}\<rparr>"

text \<open>The system in which \<open>camera_init\<close> on \<open>sys_reset\<close>, for the context at address 1
  and \<open>platform_instance\<close>, has returned -1 because no sensor answered: the context is
  zeroed but for its platform pointer, and the calls made are the clock output, the
  settling delay and the five tries of \<open>camera_detect\<close>.\<close>

definition sys_probe_failed :: sys where
  "sys_probe_failed =
     \<lparr>cameras = [1 \<mapsto> zero_camera\<lparr>platform := Some platform_instance\<rparr>],
      irq_ctxs = [None, None], irq_enabled = [False, False], dma_claimed = {},
      i2c_replies = [],
      trace = [Clock_gpio_init 21 9, Sleep_ms 300]
              @ concat (replicate 5 [I2c_write_blocking OV7670_ADDR [OV7670_REG_PID], Sleep_ms 100])\<rparr>"

text \<open>A system before any driver call whose sensor answers the first identification
  read with 0x76.\<close>

definition sys_sensor_present :: sys where
  "sys_sensor_present = sys_reset\<lparr>i2c_replies := [(1, None), (1, Some 0x76)]\<rparr>"


section \<open>Facts about the format calculus\<close>

lemma FORMAT_YUYV_code: "FORMAT_YUYV = 0x56595559"
  by (simp add: FORMAT_YUYV_def FORMAT_CODE_def)

lemma FORMAT_RGB565_code: "FORMAT_RGB565 = 0x36314752"
  by (simp add: FORMAT_RGB565_def FORMAT_CODE_def)

lemma FORMAT_YUV422_code: "FORMAT_YUV422 = 0x36315559"
  by (simp add: FORMAT_YUV422_def FORMAT_CODE_def)

lemmas format_codes = FORMAT_YUYV_code FORMAT_RGB565_code FORMAT_YUV422_code

lemma format_stride_product_in_int:
  fixes width :: u16
  shows "0 \<le> uint (format_bytes_per_pixel format plane) * uint width"
    and "uint (format_bytes_per_pixel format plane) * uint width < 2 ^ 31"
proof -
  have b: "uint (format_bytes_per_pixel format plane) \<le> 2"
    by (simp add: format_bytes_per_pixel_def)
  have w: "uint width < 2 ^ 16"
    using uint_lt2p [of width] by simp
  show "0 \<le> uint (format_bytes_per_pixel format plane) * uint width"
    by simp
  have "uint (format_bytes_per_pixel format plane) * uint width \<le> 2 * uint width"
    using b by (intro mult_right_mono) simp_all
  with w show "uint (format_bytes_per_pixel format plane) * uint width < 2 ^ 31"
    by simp
qed

lemma format_hsub_cases: "format_hsub format plane = 1 \<or> format_hsub format plane = 2"
  by (simp add: format_hsub_def)

lemma format_hsub_nonzero: "uint (format_hsub format plane) \<noteq> 0"
  using format_hsub_cases [of format plane] by auto

lemma uint_format_stride:
  "uint (format_stride format plane width) =
     uint (format_bytes_per_pixel format plane) * uint width div uint (format_hsub format plane)"
proof -
  let ?q = "uint (format_bytes_per_pixel format plane) * uint width
              div uint (format_hsub format plane)"
  have h: "0 < uint (format_hsub format plane)"
    using format_hsub_cases [of format plane] by auto
  have "0 \<le> ?q"
    using format_stride_product_in_int(1) h by (simp add: pos_imp_zdiv_nonneg_iff)
  moreover have "?q \<le> uint (format_bytes_per_pixel format plane) * uint width div 1"
    using format_stride_product_in_int(1) h by (intro zdiv_mono2) simp_all
  then have "?q < 2 ^ 32"
    using format_stride_product_in_int(2) [of format plane width] by simp
  ultimately show ?thesis
    by (simp add: format_stride_def uint_word_of_int take_bit_int_eq_self)
qed

lemma unat_ucast_u16_u32: "unat (ucast (h :: u16) :: u32) = unat h"
proof -
  have "unat h < 2 ^ 16"
    using unsigned_less [of h, where ?'a = nat] by simp
  then have "unat h < 2 ^ 32"
    by simp
  then show ?thesis
    by (simp add: unsigned_ucast_eq take_bit_nat_eq_self)
qed

lemma unat_format_plane_size:
  "unat (format_plane_size format plane width height) =
     unat (format_stride format plane width) * unat height mod 2 ^ 32"
  by (simp add: format_plane_size_def unat_word_ariths unat_ucast_u16_u32)

text \<open>
  Claim C3. For each of the three supported format codes, every plane index below the
  format's plane count and every width and height: the plane size is the stride times
  the height (the \<open>uint32_t\<close> product of format.c, that is modulo \<open>2 ^ 32\<close>); the
  stride is exactly bytes-per-pixel times width divided (truncating) by the horizontal
  subsampling, with no wrap-around; and the subsampling is 1 except on planes 1 and 2 of
  the planar format, where it is 2 and the plane has 1 byte per pixel.
\<close>

theorem format_calculus_identities:
  fixes width height :: u16
  assumes "supported_format format" and "plane < format_num_planes format"
  shows "format_plane_size format plane width height
           = format_stride format plane width * ucast height
       \<and> unat (format_plane_size format plane width height)
           = unat (format_stride format plane width) * unat height mod 2 ^ 32
       \<and> uint (format_stride format plane width)
           = uint (format_bytes_per_pixel format plane) * uint width
               div uint (format_hsub format plane)
       \<and> format_hsub format plane
           = (if format = FORMAT_YUV422 \<and> (plane = 1 \<or> plane = 2) then 2 else 1)
       \<and> (if format = FORMAT_YUV422 then format_bytes_per_pixel format plane = 1
          else format_bytes_per_pixel format plane = 2)"
proof -
  have planes: "format = FORMAT_YUV422 \<Longrightarrow> plane \<noteq> 0 \<Longrightarrow> plane = 1 \<or> plane = 2"
  proof -
    assume f: "format = FORMAT_YUV422" and nz: "plane \<noteq> 0"
    from assms(2) f have "unat plane < 3"
      by (simp add: format_num_planes_def format_codes word_less_nat_alt)
    moreover from nz have "unat plane \<noteq> 0"
      by (simp add: unat_eq_0)
    ultimately have "unat plane = 1 \<or> unat plane = 2"
      by arith
    then show ?thesis
      by (auto simp: word_unat_eq_iff)
  qed
  have hsub: "format_hsub format plane
                = (if format = FORMAT_YUV422 \<and> (plane = 1 \<or> plane = 2) then 2 else 1)"
    using planes by (auto simp: format_hsub_def)
  have bpp: "if format = FORMAT_YUV422 then format_bytes_per_pixel format plane = 1
             else format_bytes_per_pixel format plane = 2"
    using assms(1)
    by (auto simp: supported_format_def format_bytes_per_pixel_def format_codes)
  have size: "format_plane_size format plane width height
                = format_stride format plane width * ucast height"
    by (simp add: format_plane_size_def)
  show ?thesis
    by (intro conjI size unat_format_plane_size uint_format_stride hsub bpp)
qed

theorem format_calculus_identities_witness:
  "supported_format FORMAT_YUV422 \<and> (1 :: u8) < format_num_planes FORMAT_YUV422
     \<and> uint (format_stride FORMAT_YUV422 1 80) = 40
     \<and> unat (format_plane_size FORMAT_YUV422 1 80 60) = 2400
     \<and> format_hsub FORMAT_YUV422 1 = 2
     \<and> format_bytes_per_pixel FORMAT_YUV422 1 = 1"
proof -
  have s: "supported_format FORMAT_YUV422"
    by (simp add: supported_format_def)
  have p: "(1 :: u8) < format_num_planes FORMAT_YUV422"
    by (simp add: format_num_planes_def format_codes)
  note th = format_calculus_identities [OF s p, of 80 60]
  from th have hs: "format_hsub FORMAT_YUV422 1 = 2"
    by simp
  from th have bp: "format_bytes_per_pixel FORMAT_YUV422 1 = 1"
    by simp
  from th have "uint (format_stride FORMAT_YUV422 1 80)
                  = uint (format_bytes_per_pixel FORMAT_YUV422 1) * uint (80 :: u16)
                      div uint (format_hsub FORMAT_YUV422 1)"
    by blast
  then have st: "uint (format_stride FORMAT_YUV422 1 80) = 40"
    by (simp add: hs bp)
  then have un: "unat (format_stride FORMAT_YUV422 1 80) = 40"
    by (simp add: unat_eq_nat_uint)
  from th have "unat (format_plane_size FORMAT_YUV422 1 80 60)
                  = unat (format_stride FORMAT_YUV422 1 80) * unat (60 :: u16) mod 2 ^ 32"
    by blast
  then have sz: "unat (format_plane_size FORMAT_YUV422 1 80 60) = 2400"
    by (simp add: un)
  show ?thesis
    by (intro conjI s p st sz hs bp)
qed
section \<open>Facts about the allocator and the buffer allocation\<close>

lemma fold_max_upper: "a \<in> set xs \<Longrightarrow> a \<le> fold max xs (m :: nat)"
proof (induction xs arbitrary: m)
  case Nil
  then show ?case by simp
next
  case (Cons x xs)
  have mono: "m \<le> fold max xs m" for m :: nat
  proof (induction xs arbitrary: m)
    case Nil
    then show ?case by simp
  next
    case (Cons y ys)
    have "m \<le> max y m" by simp
    also have "\<dots> \<le> fold max ys (max y m)" by (rule Cons.IH)
    finally show ?case by simp
  qed
  show ?case
  proof (cases "a = x")
    case True
    have "x \<le> max x m" by simp
    also have "\<dots> \<le> fold max xs (max x m)" by (rule mono)
    finally show ?thesis using True by simp
  next
    case False
    with Cons.prems have "a \<in> set xs" by simp
    then show ?thesis using Cons.IH by simp
  qed
qed

lemma fresh_addr_fresh: "fresh_addr bs \<notin> fst ` set bs"
proof
  assume "fresh_addr bs \<in> fst ` set bs"
  then have "fresh_addr bs \<in> set (map fst bs)"
    by simp
  then have "fresh_addr bs \<le> fold max (map fst bs) 0"
    by (rule fold_max_upper)
  then show False
    by (simp add: fresh_addr_def)
qed

lemma filter_fresh_addr: "filter (\<lambda>b. fst b \<noteq> fresh_addr bs) bs = bs"
  using fresh_addr_fresh [of bs] by (force simp: filter_id_conv)

lemma malloc_cases:
  "malloc n h = (p, h') \<Longrightarrow>
     (p = None \<and> blocks h' = blocks h \<and> malloc_ok h' = tl (malloc_ok h)
        \<and> \<not> mallocs_succeed 1 h)
   \<or> (p = Some (fresh_addr (blocks h)) \<and> blocks h' = blocks h @ [(fresh_addr (blocks h), n)]
        \<and> malloc_ok h' = tl (malloc_ok h) \<and> mallocs_succeed 1 h)"
  by (auto simp: malloc_def mallocs_succeed_def split: list.splits if_splits)

lemma free_planes_blocks:
  "blocks (free_planes is buf h)
     = filter (\<lambda>b. Some (fst b) \<notin> (\<lambda>i. data buf ! i) ` set is) (blocks h)"
  by (induction "is" arbitrary: h)
     (auto simp: free_def split: option.splits intro!: filter_cong)

lemma free_planes_malloc_ok: "malloc_ok (free_planes is buf h) = malloc_ok h"
  by (induction "is" arbitrary: h) (auto simp: free_def split: option.splits)


lemma alloc_planes_frame:
  "alloc_planes f w ht is buf h = (ok, buf', h') \<Longrightarrow>
     buf_format buf' = buf_format buf \<and> buf_width buf' = buf_width buf
       \<and> buf_height buf' = buf_height buf
       \<and> length (strides buf') = length (strides buf)
       \<and> length (sizes buf') = length (sizes buf)
       \<and> length (data buf') = length (data buf)
       \<and> (\<forall>j. j \<notin> set is \<longrightarrow> strides buf' ! j = strides buf ! j
                \<and> sizes buf' ! j = sizes buf ! j \<and> data buf' ! j = data buf ! j)"
proof (induction "is" arbitrary: buf h)
  case Nil
  then show ?case by simp
next
  case (Cons i rest)
  show ?case
  proof (cases "malloc (unat ((sizes buf)[i := format_plane_size f (of_nat i) w ht] ! i)) h")
    case (Pair p h1)
    let ?buf3 = "buf\<lparr>strides := (strides buf)[i := format_stride f (of_nat i) w],
                      sizes := (sizes buf)[i := format_plane_size f (of_nat i) w ht],
                      data := (data buf)[i := p]\<rparr>"
    show ?thesis
    proof (cases p)
      case None
      with Cons.prems Pair show ?thesis
        by (auto simp: Let_def)
    next
      case (Some a)
      with Cons.prems Pair have "alloc_planes f w ht rest ?buf3 h1 = (ok, buf', h')"
        by (simp add: Let_def)
      from Cons.IH [OF this] show ?thesis
        by auto
    qed
  qed
qed

lemma alloc_planes_step:
  assumes "alloc_planes f w ht (i # rest) buf h = (ok, buf', h')"
  obtains (stop) h1 where
      "malloc (unat ((sizes buf)[i := format_plane_size f (of_nat i) w ht] ! i)) h = (None, h1)"
      "\<not> ok"
      "buf' = buf\<lparr>strides := (strides buf)[i := format_stride f (of_nat i) w],
                   sizes := (sizes buf)[i := format_plane_size f (of_nat i) w ht],
                   data := (data buf)[i := None]\<rparr>"
      "h' = h1"
    | (continue) a h1 where
      "malloc (unat ((sizes buf)[i := format_plane_size f (of_nat i) w ht] ! i)) h = (Some a, h1)"
      "alloc_planes f w ht rest
         (buf\<lparr>strides := (strides buf)[i := format_stride f (of_nat i) w],
               sizes := (sizes buf)[i := format_plane_size f (of_nat i) w ht],
               data := (data buf)[i := Some a]\<rparr>) h1 = (ok, buf', h')"
proof (cases "malloc (unat ((sizes buf)[i := format_plane_size f (of_nat i) w ht] ! i)) h")
  case (Pair p h1)
  show thesis
  proof (cases p)
    case None
    with assms Pair show thesis
      by (intro stop [of h1]) (auto simp: Let_def)
  next
    case (Some a)
    with assms Pair show thesis
      by (intro continue [of a h1]) (auto simp: Let_def)
  qed
qed

lemma mallocs_succeed_Suc:
  "mallocs_succeed (Suc k) h \<longleftrightarrow>
     (case malloc_ok h of [] \<Rightarrow> False | ok # rest \<Rightarrow> ok \<and> mallocs_succeed k (h\<lparr>malloc_ok := rest\<rparr>))"
  by (auto simp: mallocs_succeed_def split: list.splits)

lemma mallocs_succeed_0 [simp]: "mallocs_succeed 0 h"
  by (simp add: mallocs_succeed_def)

lemma mallocs_succeed_cong: "malloc_ok h = malloc_ok h' \<Longrightarrow> mallocs_succeed k h = mallocs_succeed k h'"
  by (simp add: mallocs_succeed_def)

lemma malloc_None:
  "malloc n h = (None, h1) \<Longrightarrow> blocks h1 = blocks h \<and> \<not> mallocs_succeed (Suc k) h"
  by (auto simp: malloc_def mallocs_succeed_Suc split: list.splits if_splits)

lemma malloc_Some:
  "malloc n h = (Some a, h1) \<Longrightarrow>
     a = fresh_addr (blocks h) \<and> blocks h1 = blocks h @ [(a, n)]
       \<and> mallocs_succeed (Suc k) h = mallocs_succeed k h1"
  by (auto simp: malloc_def mallocs_succeed_def split: list.splits if_splits)

lemma alloc_planes_ok_iff:
  "alloc_planes f w ht is buf h = (ok, buf', h') \<Longrightarrow> ok = mallocs_succeed (length is) h"
proof (induction "is" arbitrary: buf h)
  case Nil
  then show ?case by auto
next
  case (Cons i rest)
  from Cons.prems show ?case
  proof (cases rule: alloc_planes_step)
    case (stop h1)
    then show ?thesis
      using malloc_None [of _ h h1 "length rest"] by simp
  next
    case (continue a h1)
    then show ?thesis
      using malloc_Some [of _ h a h1 "length rest"] Cons.IH by simp
  qed
qed

lemma alloc_planes_blocks_grow:
  "alloc_planes f w ht is buf h = (ok, buf', h') \<Longrightarrow> set (blocks h) \<subseteq> set (blocks h')"
proof (induction "is" arbitrary: buf h)
  case Nil
  then show ?case by auto
next
  case (Cons i rest)
  from Cons.prems show ?case
  proof (cases rule: alloc_planes_step)
    case (stop h1)
    then show ?thesis
      using malloc_None [of _ h h1 0] by simp
  next
    case (continue a h1)
    then show ?thesis
      using malloc_Some [of _ h a h1 0] Cons.IH [OF continue(2)] by auto
  qed
qed

lemma alloc_planes_filled:
  "alloc_planes f w ht is buf h = (True, buf', h') \<Longrightarrow> distinct is \<Longrightarrow>
     \<forall>i\<in>set is. i < length (strides buf) \<and> i < length (sizes buf) \<and> i < length (data buf) \<Longrightarrow>
     \<forall>i\<in>set is. strides buf' ! i = format_stride f (of_nat i) w
        \<and> sizes buf' ! i = format_plane_size f (of_nat i) w ht
        \<and> (\<exists>a. data buf' ! i = Some a \<and> (a, unat (sizes buf' ! i)) \<in> set (blocks h'))"
proof (induction "is" arbitrary: buf h)
  case Nil
  then show ?case by simp
next
  case (Cons i rest)
  from Cons.prems(1) show ?case
  proof (cases rule: alloc_planes_step)
    case (stop h1)
    then show ?thesis by simp
  next
    case (continue a h1)
    let ?buf3 = "buf\<lparr>strides := (strides buf)[i := format_stride f (of_nat i) w],
                     sizes := (sizes buf)[i := format_plane_size f (of_nat i) w ht],
                     data := (data buf)[i := Some a]\<rparr>"
    from Cons.prems have i: "i \<notin> set rest" "i < length (strides buf)" "i < length (sizes buf)"
        "i < length (data buf)"
      by auto
    have rest: "\<forall>j\<in>set rest. strides buf' ! j = format_stride f (of_nat j) w
        \<and> sizes buf' ! j = format_plane_size f (of_nat j) w ht
        \<and> (\<exists>a. data buf' ! j = Some a \<and> (a, unat (sizes buf' ! j)) \<in> set (blocks h'))"
    proof (rule Cons.IH [OF continue(2)])
      show "distinct rest"
        using Cons.prems(2) by simp
      show "\<forall>i\<in>set rest. i < length (strides ?buf3) \<and> i < length (sizes ?buf3)
              \<and> i < length (data ?buf3)"
        using Cons.prems(3) by simp
    qed
    from alloc_planes_frame [OF continue(2)] i
    have same: "strides buf' ! i = format_stride f (of_nat i) w"
        "sizes buf' ! i = format_plane_size f (of_nat i) w ht" "data buf' ! i = Some a"
      by simp_all
    from malloc_Some [OF continue(1)] i
    have "(a, unat (format_plane_size f (of_nat i) w ht)) \<in> set (blocks h1)"
      by simp
    moreover have "set (blocks h1) \<subseteq> set (blocks h')"
      using continue(2) by (rule alloc_planes_blocks_grow)
    ultimately show ?thesis
      using rest same by auto
  qed
qed


lemma alloc_planes_release:
  "alloc_planes f w ht is buf h = (ok, buf', h') \<Longrightarrow> distinct is \<Longrightarrow>
     \<forall>i\<in>set is. i < length (data buf) \<and> data buf ! i = None \<Longrightarrow>
     filter (\<lambda>b. Some (fst b) \<notin> (\<lambda>i. data buf' ! i) ` set is) (blocks h') = blocks h"
proof (induction "is" arbitrary: buf h)
  case Nil
  then show ?case by auto
next
  case (Cons i rest)
  from Cons.prems(2,3) have i: "i \<notin> set rest" "i < length (data buf)"
    and rest: "distinct rest" "\<forall>j\<in>set rest. j \<noteq> i \<and> j < length (data buf) \<and> data buf ! j = None"
    by auto
  from Cons.prems(1) show ?case
  proof (cases rule: alloc_planes_step)
    case (stop h1)
    from stop(3) i rest have "\<forall>j\<in>set (i # rest). data buf' ! j = None"
      by auto
    then have "\<forall>b. Some (fst b) \<notin> (\<lambda>j. data buf' ! j) ` set (i # rest)"
      by force
    then have "filter (\<lambda>b. Some (fst b) \<notin> (\<lambda>j. data buf' ! j) ` set (i # rest)) (blocks h')
                 = blocks h'"
      by (intro filter_True) blast
    then show ?thesis
      using stop(4) malloc_None [OF stop(1), of 0] by simp
  next
    case (continue a h1)
    let ?buf3 = "buf\<lparr>strides := (strides buf)[i := format_stride f (of_nat i) w],
                     sizes := (sizes buf)[i := format_plane_size f (of_nat i) w ht],
                     data := (data buf)[i := Some a]\<rparr>"
    have ih: "filter (\<lambda>b. Some (fst b) \<notin> (\<lambda>j. data buf' ! j) ` set rest) (blocks h') = blocks h1"
    proof (rule Cons.IH [OF continue(2) rest(1)])
      show "\<forall>j\<in>set rest. j < length (data ?buf3) \<and> data ?buf3 ! j = None"
        using rest(2) by (auto simp: nth_list_update)
    qed
    from alloc_planes_frame [OF continue(2)] i have at_i: "data buf' ! i = Some a"
      by simp
    from malloc_Some [OF continue(1), of 0]
    have a: "a = fresh_addr (blocks h)" and h1: "blocks h1 = blocks h @ [(a, unat ((sizes buf)[i := format_plane_size f (of_nat i) w ht] ! i))]"
      by simp_all
    have "filter (\<lambda>b. Some (fst b) \<notin> (\<lambda>j. data buf' ! j) ` set (i # rest)) (blocks h')
            = filter (\<lambda>b. fst b \<noteq> a)
                (filter (\<lambda>b. Some (fst b) \<notin> (\<lambda>j. data buf' ! j) ` set rest) (blocks h'))"
      using at_i by (auto intro!: filter_cong)
    also have "\<dots> = filter (\<lambda>b. fst b \<noteq> a) (blocks h1)"
      by (simp only: ih)
    also have "\<dots> = blocks h"
      using filter_fresh_addr [of "blocks h"] by (simp add: h1 a)
    finally show ?thesis .
  qed
qed


lemma format_num_planes_le: "unat (format_num_planes format) \<le> CAMERA_MAX_N_PLANES"
  by (simp add: format_num_planes_def CAMERA_MAX_N_PLANES_def)

lemma format_num_planes_unsupported: "\<not> supported_format format \<Longrightarrow> format_num_planes format = 0"
  by (simp add: supported_format_def format_num_planes_def)

lemma camera_buffer_alloc_result:
  assumes "camera_buffer_alloc format width height h = (r, h')"
  shows "case r of
           None \<Rightarrow> \<not> mallocs_succeed (Suc (unat (format_num_planes format))) h
                     \<and> blocks h' = blocks h
         | Some (b, buf) \<Rightarrow>
             mallocs_succeed (Suc (unat (format_num_planes format))) h
             \<and> buf_format buf = format \<and> buf_width buf = width \<and> buf_height buf = height
             \<and> length (strides buf) = CAMERA_MAX_N_PLANES
             \<and> length (sizes buf) = CAMERA_MAX_N_PLANES
             \<and> length (data buf) = CAMERA_MAX_N_PLANES
             \<and> (b, sizeof_camera_buffer) \<in> set (blocks h')
             \<and> (\<forall>i<CAMERA_MAX_N_PLANES.
                   if i < unat (format_num_planes format)
                   then strides buf ! i = format_stride format (of_nat i) width
                      \<and> sizes buf ! i = format_plane_size format (of_nat i) width height
                      \<and> (\<exists>a. data buf ! i = Some a \<and> (a, unat (sizes buf ! i)) \<in> set (blocks h'))
                   else strides buf ! i = 0 \<and> sizes buf ! i = 0 \<and> data buf ! i = None)"
proof -
  let ?n = "unat (format_num_planes format)"
  let ?buf0 = "\<lparr>buf_format = format, buf_width = width, buf_height = height,
                 strides = replicate CAMERA_MAX_N_PLANES 0,
                 sizes = replicate CAMERA_MAX_N_PLANES 0,
                 data = replicate CAMERA_MAX_N_PLANES None\<rparr>"
  note n3 = format_num_planes_le [of format]
  obtain p h1 where m: "malloc sizeof_camera_buffer h = (p, h1)"
    by force
  show ?thesis
  proof (cases p)
    case None
    with assms m have "r = None" "h' = h1"
      by (simp_all add: camera_buffer_alloc_def)
    with malloc_None [of sizeof_camera_buffer h h1 ?n] m None show ?thesis
      by simp
  next
    case (Some b)
    note ms = malloc_Some [of sizeof_camera_buffer h b h1 ?n]
    from m Some have b: "b = fresh_addr (blocks h)"
        and h1: "blocks h1 = blocks h @ [(b, sizeof_camera_buffer)]"
        and tape: "mallocs_succeed (Suc ?n) h = mallocs_succeed ?n h1"
      using ms by simp_all
    obtain ok buf' h2 where ap: "alloc_planes format width height [0..<?n] ?buf0 h1 = (ok, buf', h2)"
      using prod_cases3 by blast
    from alloc_planes_ok_iff [OF ap] have ok: "ok = mallocs_succeed ?n h1"
      by simp
    note frame = alloc_planes_frame [OF ap]
    show ?thesis
    proof (cases ok)
      case True
      with assms m Some ap have r: "r = Some (b, buf')" and h': "h' = h2"
        by (simp_all add: camera_buffer_alloc_def Let_def)
      have filled: "\<forall>i\<in>set [0..<?n]. strides buf' ! i = format_stride format (of_nat i) width
          \<and> sizes buf' ! i = format_plane_size format (of_nat i) width height
          \<and> (\<exists>a. data buf' ! i = Some a \<and> (a, unat (sizes buf' ! i)) \<in> set (blocks h2))"
      proof (rule alloc_planes_filled)
        show "alloc_planes format width height [0..<?n] ?buf0 h1 = (True, buf', h2)"
          using ap True by simp
        show "distinct [0..<?n]"
          by simp
        show "\<forall>i\<in>set [0..<?n]. i < length (strides ?buf0) \<and> i < length (sizes ?buf0)
                \<and> i < length (data ?buf0)"
          using n3 by simp
      qed
      have untouched: "\<forall>i<CAMERA_MAX_N_PLANES. \<not> i < ?n \<longrightarrow>
          strides buf' ! i = 0 \<and> sizes buf' ! i = 0 \<and> data buf' ! i = None"
        using frame by simp
      have blk: "(b, sizeof_camera_buffer) \<in> set (blocks h2)"
        using alloc_planes_blocks_grow [OF ap] h1 by auto
      have ms: "mallocs_succeed (Suc ?n) h"
        using True ok tape by simp
      from frame have meta: "buf_format buf' = format" "buf_width buf' = width"
          "buf_height buf' = height" "length (strides buf') = CAMERA_MAX_N_PLANES"
          "length (sizes buf') = CAMERA_MAX_N_PLANES" "length (data buf') = CAMERA_MAX_N_PLANES"
        by simp_all
      have planes: "\<forall>i<CAMERA_MAX_N_PLANES.
          if i < ?n
          then strides buf' ! i = format_stride format (of_nat i) width
             \<and> sizes buf' ! i = format_plane_size format (of_nat i) width height
             \<and> (\<exists>a. data buf' ! i = Some a \<and> (a, unat (sizes buf' ! i)) \<in> set (blocks h2))
          else strides buf' ! i = 0 \<and> sizes buf' ! i = 0 \<and> data buf' ! i = None"
      proof (intro allI impI)
        fix i
        assume i: "i < CAMERA_MAX_N_PLANES"
        show "if i < ?n
          then strides buf' ! i = format_stride format (of_nat i) width
             \<and> sizes buf' ! i = format_plane_size format (of_nat i) width height
             \<and> (\<exists>a. data buf' ! i = Some a \<and> (a, unat (sizes buf' ! i)) \<in> set (blocks h2))
          else strides buf' ! i = 0 \<and> sizes buf' ! i = 0 \<and> data buf' ! i = None"
        proof (cases "i < ?n")
          case True
          then have "i \<in> set [0..<?n]"
            by simp
          with filled have "strides buf' ! i = format_stride format (of_nat i) width
             \<and> sizes buf' ! i = format_plane_size format (of_nat i) width height
             \<and> (\<exists>a. data buf' ! i = Some a \<and> (a, unat (sizes buf' ! i)) \<in> set (blocks h2))"
            by (rule bspec)
          with True show ?thesis
            by auto
        next
          case False
          with untouched i show ?thesis
            by simp
        qed
      qed
      show ?thesis
        unfolding r h' option.case prod.case
        by (intro conjI ms meta blk planes)
    next
      case False
      with assms m Some ap have r: "r = None"
          and h': "h' = free b (free_planes [0..<?n] buf' h2)"
        by (simp_all add: camera_buffer_alloc_def Let_def)
      have "filter (\<lambda>b. Some (fst b) \<notin> (\<lambda>i. data buf' ! i) ` set [0..<?n]) (blocks h2) = blocks h1"
      proof (rule alloc_planes_release [OF ap])
        show "distinct [0..<?n]"
          by simp
        show "\<forall>i\<in>set [0..<?n]. i < length (data ?buf0) \<and> data ?buf0 ! i = None"
          using n3 by simp
      qed
      then have "blocks h' = filter (\<lambda>x. fst x \<noteq> b) (blocks h1)"
        by (simp add: h' free_def free_planes_blocks)
      also have "\<dots> = blocks h"
        using filter_fresh_addr [of "blocks h"] by (simp add: h1 b)
      finally show ?thesis
        using r False ok tape by simp
    qed
  qed
qed

lemma scenario_rgb565:
  "unat (format_num_planes FORMAT_RGB565) = 1"
  "format_stride FORMAT_RGB565 0 80 = 160"
  "format_plane_size FORMAT_RGB565 0 80 60 = 9600"
  by (simp_all add: format_num_planes_def format_plane_size_def format_stride_def
        format_bytes_per_pixel_def format_hsub_def format_codes)

lemma scenario_yuv422:
  "unat (format_num_planes FORMAT_YUV422) = 3"
  "format_stride FORMAT_YUV422 0 80 = 80"
  "format_stride FORMAT_YUV422 1 80 = 40"
  "format_stride FORMAT_YUV422 2 80 = 40"
  "format_plane_size FORMAT_YUV422 0 80 60 = 4800"
  "format_plane_size FORMAT_YUV422 1 80 60 = 2400"
  "format_plane_size FORMAT_YUV422 2 80 60 = 2400"
  by (simp_all add: format_num_planes_def format_plane_size_def format_stride_def
        format_bytes_per_pixel_def format_hsub_def format_codes)

lemma list3_eq:
  "length xs = 3 \<Longrightarrow> xs ! 0 = a \<Longrightarrow> xs ! 1 = b \<Longrightarrow> xs ! 2 = c \<Longrightarrow> xs = [a, b, c]"
  by (cases xs; cases "tl xs"; cases "tl (tl xs)") auto

text \<open>
  Claim C4. For every supported format, width and height, \<open>camera_buffer_alloc\<close> either
  returns a buffer (exactly when the \<open>malloc\<close> of the struct and of every plane all find
  memory) whose stride and size, for every plane of the format, are those of the format
  calculus and whose plane data are live blocks of that size; or it returns NULL, and then
  the live blocks of the heap are those from before the call: every plane allocated on
  the way and the struct itself were freed. At 80x60 the packed 16-bit colour format
  gives 1 plane with stride 160 and size 9600, the planar format 3 planes with strides
  80, 40, 40 and sizes 4800, 2400, 2400.
\<close>

theorem camera_buffer_alloc_all_or_nothing:
  assumes "supported_format format"
  shows "(unat (format_num_planes format) = 1 \<or> unat (format_num_planes format) = 3)
       \<and> (case camera_buffer_alloc format width height h of
           (None, h') \<Rightarrow>
             \<not> mallocs_succeed (Suc (unat (format_num_planes format))) h
             \<and> blocks h' = blocks h
         | (Some (b, buf), h') \<Rightarrow>
             mallocs_succeed (Suc (unat (format_num_planes format))) h
             \<and> buf_format buf = format \<and> buf_width buf = width \<and> buf_height buf = height
             \<and> (b, sizeof_camera_buffer) \<in> set (blocks h')
             \<and> (\<forall>i<unat (format_num_planes format).
                   strides buf ! i = format_stride format (of_nat i) width
                   \<and> sizes buf ! i = format_plane_size format (of_nat i) width height
                   \<and> (\<exists>a. data buf ! i = Some a \<and> (a, unat (sizes buf ! i)) \<in> set (blocks h')))
             \<and> (format = FORMAT_RGB565 \<and> width = 80 \<and> height = 60 \<longrightarrow>
                   unat (format_num_planes format) = 1
                   \<and> strides buf ! 0 = 160 \<and> sizes buf ! 0 = 9600)
             \<and> (format = FORMAT_YUV422 \<and> width = 80 \<and> height = 60 \<longrightarrow>
                   unat (format_num_planes format) = 3
                   \<and> strides buf = [80, 40, 40] \<and> sizes buf = [4800, 2400, 2400]))"
proof -
  let ?n = "unat (format_num_planes format)"
  from assms have count: "?n = 1 \<or> ?n = 3"
    by (auto simp: supported_format_def format_num_planes_def)
  obtain r h' where eq: "camera_buffer_alloc format width height h = (r, h')"
    by force
  note res = camera_buffer_alloc_result [OF eq]
  show ?thesis
  proof (cases r)
    case None
    with res eq count show ?thesis
      by simp
  next
    case (Some bb)
    obtain b buf where bb: "bb = (b, buf)"
      by force
    note res' = res [unfolded Some bb option.case prod.case]
    from res' have
      ms: "mallocs_succeed (Suc ?n) h" and
      meta: "buf_format buf = format" "buf_width buf = width" "buf_height buf = height" and
      len': "length (strides buf) = CAMERA_MAX_N_PLANES"
        "length (sizes buf) = CAMERA_MAX_N_PLANES" and
      blk: "(b, sizeof_camera_buffer) \<in> set (blocks h')" and
      planes: "\<forall>i<CAMERA_MAX_N_PLANES.
                   if i < ?n
                   then strides buf ! i = format_stride format (of_nat i) width
                      \<and> sizes buf ! i = format_plane_size format (of_nat i) width height
                      \<and> (\<exists>a. data buf ! i = Some a \<and> (a, unat (sizes buf ! i)) \<in> set (blocks h'))
                   else strides buf ! i = 0 \<and> sizes buf ! i = 0 \<and> data buf ! i = None"
      by blast+
    from len' have len: "length (strides buf) = 3" "length (sizes buf) = 3"
      by (simp_all add: CAMERA_MAX_N_PLANES_def)
    have plane: "strides buf ! i = format_stride format (of_nat i) width
                   \<and> sizes buf ! i = format_plane_size format (of_nat i) width height
                   \<and> (\<exists>a. data buf ! i = Some a \<and> (a, unat (sizes buf ! i)) \<in> set (blocks h'))"
      if "i < ?n" for i
    proof -
      from that format_num_planes_le [of format] have "i < CAMERA_MAX_N_PLANES"
        by simp
      with planes have "if i < ?n
          then strides buf ! i = format_stride format (of_nat i) width
             \<and> sizes buf ! i = format_plane_size format (of_nat i) width height
             \<and> (\<exists>a. data buf ! i = Some a \<and> (a, unat (sizes buf ! i)) \<in> set (blocks h'))
          else strides buf ! i = 0 \<and> sizes buf ! i = 0 \<and> data buf ! i = None"
        by blast
      then show ?thesis
        unfolding if_P [OF that] .
    qed
    have all: "\<forall>i<?n. strides buf ! i = format_stride format (of_nat i) width
                   \<and> sizes buf ! i = format_plane_size format (of_nat i) width height
                   \<and> (\<exists>a. data buf ! i = Some a \<and> (a, unat (sizes buf ! i)) \<in> set (blocks h'))"
      using plane by blast
    have rgb: "format = FORMAT_RGB565 \<and> width = 80 \<and> height = 60 \<longrightarrow>
                 ?n = 1 \<and> strides buf ! 0 = 160 \<and> sizes buf ! 0 = 9600"
      using plane [of 0] scenario_rgb565 by auto
    have yuv: "format = FORMAT_YUV422 \<and> width = 80 \<and> height = 60 \<longrightarrow>
                 ?n = 3 \<and> strides buf = [80, 40, 40] \<and> sizes buf = [4800, 2400, 2400]"
    proof (intro impI; elim conjE)
      assume f: "format = FORMAT_YUV422" "width = 80" "height = 60"
      with plane [of 0] plane [of 1] plane [of 2] scenario_yuv422
      have "strides buf ! 0 = 80" "strides buf ! 1 = 40" "strides buf ! 2 = 40"
           "sizes buf ! 0 = 4800" "sizes buf ! 1 = 2400" "sizes buf ! 2 = 2400"
        by simp_all
      with len f scenario_yuv422(1) show "?n = 3 \<and> strides buf = [80, 40, 40]
          \<and> sizes buf = [4800, 2400, 2400]"
        by (simp add: list3_eq)
    qed
    show ?thesis
      unfolding eq Some bb prod.case option.case
      by (intro conjI count ms meta blk all rgb yuv)
  qed
qed


theorem camera_buffer_alloc_all_or_nothing_witness:
  "supported_format FORMAT_YUV422
   \<and> (\<exists>b buf h'. camera_buffer_alloc FORMAT_YUV422 80 60
                     \<lparr>blocks = [], malloc_ok = [True, True, True, True]\<rparr> = (Some (b, buf), h')
         \<and> strides buf = [80, 40, 40] \<and> sizes buf = [4800, 2400, 2400])
   \<and> (\<exists>h'. camera_buffer_alloc FORMAT_YUV422 80 60
                \<lparr>blocks = [(7, 16)], malloc_ok = [True, True, False]\<rparr> = (None, h')
         \<and> blocks h' = [(7, 16)])"
proof -
  let ?good = "\<lparr>blocks = [], malloc_ok = [True, True, True, True]\<rparr>"
  let ?bad = "\<lparr>blocks = [(7, 16)], malloc_ok = [True, True, False]\<rparr>"
  have s: "supported_format FORMAT_YUV422"
    by (simp add: supported_format_def)
  have n: "Suc (unat (format_num_planes FORMAT_YUV422)) = 4"
    by (simp add: scenario_yuv422)
  have good: "mallocs_succeed 4 ?good"
    by (simp add: mallocs_succeed_def)
  have bad: "\<not> mallocs_succeed 4 ?bad"
    by (simp add: mallocs_succeed_def)
  obtain r1 h1 where e1: "camera_buffer_alloc FORMAT_YUV422 80 60 ?good = (r1, h1)"
    by force
  obtain r2 h2 where e2: "camera_buffer_alloc FORMAT_YUV422 80 60 ?bad = (r2, h2)"
    by force
  from camera_buffer_alloc_all_or_nothing [OF s, where width = 80 and height = 60 and h = ?good] e1 good n
  have "\<exists>b buf. r1 = Some (b, buf) \<and> strides buf = [80, 40, 40]
          \<and> sizes buf = [4800, 2400, 2400]"
    by (cases r1) auto
  moreover from camera_buffer_alloc_all_or_nothing [OF s, where width = 80 and height = 60 and h = ?bad] e2 bad n
  have "r2 = None \<and> blocks h2 = [(7, 16)]"
    by (cases r2) auto
  ultimately show ?thesis
    using s e1 e2 by auto
qed

text \<open>
  Claim C10. For a format code that is none of the three supported ones, and when
  \<open>malloc\<close> finds memory for the \<open>struct camera_buffer\<close>, \<open>camera_buffer_alloc\<close> returns a
  non-NULL buffer: the format has 0 planes, no plane storage is requested (the only new
  block is the struct's), and every stride, size and data pointer of the buffer is zero.
\<close>

theorem camera_buffer_alloc_unsupported_format:
  assumes "\<not> supported_format format" and "mallocs_succeed 1 h"
  shows "format_num_planes format = 0
       \<and> (\<exists>b. camera_buffer_alloc format width height h =
               (Some (b, \<lparr>buf_format = format, buf_width = width, buf_height = height,
                          strides = [0, 0, 0], sizes = [0, 0, 0],
                          data = [None, None, None]\<rparr>),
                h\<lparr>blocks := blocks h @ [(b, sizeof_camera_buffer)],
                  malloc_ok := tl (malloc_ok h)\<rparr>))"
proof -
  from assms(1) have n: "format_num_planes format = 0"
    by (rule format_num_planes_unsupported)
  from assms(2) obtain rest where tape: "malloc_ok h = True # rest"
    by (cases "malloc_ok h") (auto simp: mallocs_succeed_def)
  have "camera_buffer_alloc format width height h =
          (Some (fresh_addr (blocks h),
                 \<lparr>buf_format = format, buf_width = width, buf_height = height,
                   strides = [0, 0, 0], sizes = [0, 0, 0], data = [None, None, None]\<rparr>),
           h\<lparr>blocks := blocks h @ [(fresh_addr (blocks h), sizeof_camera_buffer)],
             malloc_ok := tl (malloc_ok h)\<rparr>)"
    by (simp add: camera_buffer_alloc_def malloc_def tape n CAMERA_MAX_N_PLANES_def
          numeral_3_eq_3)
  with n show ?thesis
    by blast
qed

theorem camera_buffer_alloc_unsupported_format_witness:
  "\<not> supported_format 0 \<and> mallocs_succeed 1 \<lparr>blocks = [], malloc_ok = [True]\<rparr>
   \<and> format_num_planes 0 = 0
   \<and> (\<exists>b. camera_buffer_alloc 0 80 60 \<lparr>blocks = [], malloc_ok = [True]\<rparr> =
           (Some (b, \<lparr>buf_format = 0, buf_width = 80, buf_height = 60,
                      strides = [0, 0, 0], sizes = [0, 0, 0], data = [None, None, None]\<rparr>),
            \<lparr>blocks = [(b, sizeof_camera_buffer)], malloc_ok = []\<rparr>))"
proof -
  have u: "\<not> supported_format 0"
    by (simp add: supported_format_def format_codes)
  have m: "mallocs_succeed 1 \<lparr>blocks = [], malloc_ok = [True]\<rparr>"
    by (simp add: mallocs_succeed_def)
  from camera_buffer_alloc_unsupported_format [OF u m, where width = 80 and height = 60] u m show ?thesis
    by simp
qed
section \<open>Facts about the sensor driver\<close>

text \<open>
  Every \<open>uint8_t\<close> is at most \<open>OV7670_REG_LAST\<close>, so the loop of \<open>OV7670_write_list\<close> stops at
  no element of its table: whatever the table and the state of the bus, the call writes
  every element, the end marker included, and reads past the end. The same holds of the
  functions that call it.
\<close>

lemma reg_le_OV7670_REG_LAST: "reg \<le> OV7670_REG_LAST"
proof -
  have "unat reg < 2 ^ LENGTH(8)"
    by (rule unsigned_less)
  then show ?thesis
    by (simp add: OV7670_REG_LAST_def word_le_nat_alt)
qed

lemma OV7670_write_list_halts: "OV7670_write_list cmds s = Inl Out_of_bounds"
  by (induction cmds arbitrary: s) (simp_all add: reg_le_OV7670_REG_LAST)

lemma OV7670_set_format_halts: "OV7670_set_format colorspace s = Inl Out_of_bounds"
  by (simp add: OV7670_set_format_def OV7670_write_list_halts)

lemma OV7670_begin_halts: "OV7670_begin pins colorspace sz s = Inl Out_of_bounds"
  by (simp add: OV7670_begin_def Let_def OV7670_set_format_halts)

section \<open>Facts about configuration\<close>

lemma camera_configure_rejects:
  "width \<noteq> CAMERA_WIDTH_DIV8 \<or> height \<noteq> CAMERA_HEIGHT_DIV8 \<Longrightarrow>
     camera_configure K p format width height s = Inr (- 1, s)"
  by (simp add: camera_configure_def)

lemma camera_configure_halts:
  assumes "cameras s p = Some c" and "platform c = Some plat"
  shows "camera_configure K p format CAMERA_WIDTH_DIV8 CAMERA_HEIGHT_DIV8 s = Inl Out_of_bounds"
  using assms by (simp add: camera_configure_def OV7670_set_format_halts)

lemma emit_fields [simp]:
  "cameras (emit calls s) = cameras s"
  "irq_ctxs (emit calls s) = irq_ctxs s"
  "irq_enabled (emit calls s) = irq_enabled s"
  "dma_claimed (emit calls s) = dma_claimed s"
  "i2c_replies (emit calls s) = i2c_replies s"
  "trace (emit calls s) = trace s @ calls"
  by (simp_all add: emit_def)

lemma camera_pio_configure_fields [simp]:
  "cameras (camera_pio_configure c plat s) = cameras s"
  "irq_ctxs (camera_pio_configure c plat s) = irq_ctxs s"
  "irq_enabled (camera_pio_configure c plat s) = irq_enabled s"
  "dma_claimed (camera_pio_configure c plat s) = dma_claimed s"
  "i2c_replies (camera_pio_configure c plat s) = i2c_replies s"
  by (simp_all add: camera_pio_configure_def Let_def)

text \<open>
  Claim C5, on the code. For every format, and every width and height other than 80 by
  60, \<open>camera_configure\<close> returns -1 and leaves the whole system state, hence the context's
  format, width, height, DMA and state-machine configurations, as it was. At 80 by 60, on
  a context whose platform pointer is set, the call does not return 0: \<open>OV7670_set_format\<close>
  runs \<open>OV7670_write_list\<close> past the end of its command table, and the call does not
  return.
\<close>

theorem camera_configure_resolution_halts:
  "((width, height) \<noteq> (80, 60) \<longrightarrow>
      camera_configure K p format width height s = Inr (- 1, s))
   \<and> (cameras s p = Some c \<and> platform c = Some plat \<longrightarrow>
        camera_configure K p format 80 60 s = Inl Out_of_bounds)"
  using camera_configure_halts [of s p c plat K format]
  by (auto simp: camera_configure_rejects CAMERA_WIDTH_DIV8_def CAMERA_HEIGHT_DIV8_def)

theorem camera_configure_resolution_halts_witness:
  "((81 :: u16, 60 :: u16) \<noteq> (80, 60))
   \<and> camera_configure sdk_instance 1 FORMAT_RGB565 81 60 sys_probe_failed
       = Inr (- 1, sys_probe_failed)
   \<and> cameras sys_probe_failed 1 = Some (zero_camera\<lparr>platform := Some platform_instance\<rparr>)
   \<and> platform (zero_camera\<lparr>platform := Some platform_instance\<rparr>) = Some platform_instance
   \<and> camera_configure sdk_instance 1 FORMAT_RGB565 80 60 sys_probe_failed = Inl Out_of_bounds"
proof -
  have a: "cameras sys_probe_failed 1 = Some (zero_camera\<lparr>platform := Some platform_instance\<rparr>)"
    by (simp add: sys_probe_failed_def)
  have b: "platform (zero_camera\<lparr>platform := Some platform_instance\<rparr>) = Some platform_instance"
    by simp
  have c: "(81 :: u16, 60 :: u16) \<noteq> (80, 60)"
    by simp
  from camera_configure_resolution_halts
         [of 81 60 sdk_instance 1 FORMAT_RGB565 sys_probe_failed
             "zero_camera\<lparr>platform := Some platform_instance\<rparr>" platform_instance]
       a b c
  show ?thesis
    by blast
qed

text \<open>
  The plane loop of \<open>camera_configure\<close>: a turn for one plane is idempotent and commutes
  with the turn for another, with the store of the frame state machine's entry and with
  the store of the format, width and height; the loop over distinct planes is idempotent;
  after the loop each plane has the values computed in its turn.
\<close>

lemma configure_plane_idem:
  "configure_plane K c plat f w h i (configure_plane K c plat f w h i cfg)
     = configure_plane K c plat f w h i cfg"
  by (simp add: configure_plane_def Let_def)

lemma configure_plane_commute:
  "i \<noteq> j \<Longrightarrow>
     configure_plane K c plat f w h i (configure_plane K c plat f w h j cfg)
       = configure_plane K c plat f w h j (configure_plane K c plat f w h i cfg)"
  by (simp add: configure_plane_def Let_def list_update_swap [of i j]
        list_update_swap [of "Suc i" "Suc j"])

lemma configure_plane_frame_sm:
  "configure_plane K c plat f w h i (cfg\<lparr>sm_cfgs := (sm_cfgs cfg)[CAMERA_PIO_FRAME_SM := x]\<rparr>)
     = (configure_plane K c plat f w h i cfg)
         \<lparr>sm_cfgs := (sm_cfgs (configure_plane K c plat f w h i cfg))[CAMERA_PIO_FRAME_SM := x]\<rparr>"
  by (simp add: configure_plane_def Let_def CAMERA_PIO_FRAME_SM_def list_update_swap [of 0 "Suc i"])

lemma configure_plane_triple:
  "configure_plane K c plat f w h i (cfg\<lparr>cfg_format := a, cfg_width := b, cfg_height := d\<rparr>)
     = (configure_plane K c plat f w h i cfg)\<lparr>cfg_format := a, cfg_width := b, cfg_height := d\<rparr>"
  by (simp add: configure_plane_def Let_def)

lemma fold_configure_plane_commute:
  "i \<notin> set is \<Longrightarrow>
     fold (configure_plane K c plat f w h) is (configure_plane K c plat f w h i cfg)
       = configure_plane K c plat f w h i (fold (configure_plane K c plat f w h) is cfg)"
proof (induction "is" arbitrary: cfg)
  case Nil
  then show ?case by simp
next
  case (Cons a rest)
  let ?S = "configure_plane K c plat f w h"
  from Cons.prems have ai: "a \<noteq> i" and i: "i \<notin> set rest"
    by auto
  have "fold ?S (a # rest) (?S i cfg) = fold ?S rest (?S i (?S a cfg))"
    by (simp add: configure_plane_commute [OF ai])
  also have "\<dots> = ?S i (fold ?S rest (?S a cfg))"
    by (rule Cons.IH [OF i])
  finally show ?case
    by simp
qed

lemma fold_configure_plane_idem:
  "distinct is \<Longrightarrow>
     fold (configure_plane K c plat f w h) is (fold (configure_plane K c plat f w h) is cfg)
       = fold (configure_plane K c plat f w h) is cfg"
proof (induction "is" arbitrary: cfg)
  case Nil
  then show ?case by simp
next
  case (Cons i rest)
  let ?S = "configure_plane K c plat f w h"
  from Cons.prems have i: "i \<notin> set rest" and d: "distinct rest"
    by simp_all
  have "fold ?S (i # rest) (fold ?S (i # rest) cfg)
          = fold ?S rest (?S i (?S i (fold ?S rest cfg)))"
    by (simp add: fold_configure_plane_commute [OF i])
  also have "\<dots> = fold ?S rest (fold ?S rest (?S i cfg))"
    by (simp add: configure_plane_idem fold_configure_plane_commute [OF i])
  also have "\<dots> = fold ?S rest (?S i cfg)"
    by (rule Cons.IH [OF d])
  finally show ?case
    by simp
qed

lemma fold_configure_plane_frame_sm:
  "fold (configure_plane K c plat f w h) is (cfg\<lparr>sm_cfgs := (sm_cfgs cfg)[CAMERA_PIO_FRAME_SM := x]\<rparr>)
     = (fold (configure_plane K c plat f w h) is cfg)
         \<lparr>sm_cfgs := (sm_cfgs (fold (configure_plane K c plat f w h) is cfg))
                       [CAMERA_PIO_FRAME_SM := x]\<rparr>"
  by (induction "is" arbitrary: cfg) (simp_all add: configure_plane_frame_sm)

lemma fold_configure_plane_triple:
  "fold (configure_plane K c plat f w h) is (cfg\<lparr>cfg_format := a, cfg_width := b, cfg_height := d\<rparr>)
     = (fold (configure_plane K c plat f w h) is cfg)
         \<lparr>cfg_format := a, cfg_width := b, cfg_height := d\<rparr>"
  by (induction "is" arbitrary: cfg) (simp_all add: configure_plane_triple)

lemma configure_plane_lengths [simp]:
  "length (dma_cfgs (configure_plane K c plat f w h i cfg)) = length (dma_cfgs cfg)"
  "length (dma_offset (configure_plane K c plat f w h i cfg)) = length (dma_offset cfg)"
  "length (dma_transfers (configure_plane K c plat f w h i cfg)) = length (dma_transfers cfg)"
  "length (sm_cfgs (configure_plane K c plat f w h i cfg)) = length (sm_cfgs cfg)"
  by (simp_all add: configure_plane_def Let_def)

lemma fold_configure_plane_lengths [simp]:
  "length (dma_cfgs (fold (configure_plane K c plat f w h) is cfg)) = length (dma_cfgs cfg)"
  "length (dma_offset (fold (configure_plane K c plat f w h) is cfg)) = length (dma_offset cfg)"
  "length (dma_transfers (fold (configure_plane K c plat f w h) is cfg))
     = length (dma_transfers cfg)"
  "length (sm_cfgs (fold (configure_plane K c plat f w h) is cfg)) = length (sm_cfgs cfg)"
  by (induction "is" arbitrary: cfg) simp_all

lemma configure_plane_nth_same:
  assumes "i < length (dma_cfgs cfg)" and "i < length (dma_offset cfg)"
    and "i < length (dma_transfers cfg)"
  shows "dma_cfgs (configure_plane K c plat f w h i cfg) ! i
           = (dma_channel_get_default_config K (dma_channels c ! i))
               \<lparr>transfer_data_size := camera_transfer_size f (of_nat i),
                 read_increment := False, write_increment := True,
                 dreq := pio_get_dreq K (pio plat) (i + 1) False\<rparr>"
    and "dma_offset (configure_plane K c plat f w h i cfg) ! i
           = 4 - ucast (dma_transfer_size_to_bytes (camera_transfer_size f (of_nat i)))"
    and "dma_transfers (configure_plane K c plat f w h i cfg) ! i
           = format_plane_size f (of_nat i) w h
               div ucast (dma_transfer_size_to_bytes (camera_transfer_size f (of_nat i)))"
  using assms by (simp_all add: configure_plane_def Let_def)

lemma configure_plane_nth_other:
  assumes "j \<noteq> i"
  shows "dma_cfgs (configure_plane K c plat f w h i cfg) ! j = dma_cfgs cfg ! j"
    and "dma_offset (configure_plane K c plat f w h i cfg) ! j = dma_offset cfg ! j"
    and "dma_transfers (configure_plane K c plat f w h i cfg) ! j = dma_transfers cfg ! j"
  using assms by (simp_all add: configure_plane_def Let_def)

lemma fold_configure_plane_nth:
  assumes "i < n" and "i < length (dma_cfgs cfg)" and "i < length (dma_offset cfg)"
    and "i < length (dma_transfers cfg)"
  shows "dma_cfgs (fold (configure_plane K c plat f w h) [0..<n] cfg) ! i
           = (dma_channel_get_default_config K (dma_channels c ! i))
               \<lparr>transfer_data_size := camera_transfer_size f (of_nat i),
                 read_increment := False, write_increment := True,
                 dreq := pio_get_dreq K (pio plat) (i + 1) False\<rparr>
       \<and> dma_offset (fold (configure_plane K c plat f w h) [0..<n] cfg) ! i
           = 4 - ucast (dma_transfer_size_to_bytes (camera_transfer_size f (of_nat i)))
       \<and> dma_transfers (fold (configure_plane K c plat f w h) [0..<n] cfg) ! i
           = format_plane_size f (of_nat i) w h
               div ucast (dma_transfer_size_to_bytes (camera_transfer_size f (of_nat i)))"
  using assms(1)
proof (induction n)
  case 0
  then show ?case by simp
next
  case (Suc n)
  show ?case
  proof (cases "i = n")
    case True
    with assms(2-4) show ?thesis
      by (simp add: configure_plane_nth_same)
  next
    case False
    with Suc.prems have "i < n"
      by simp
    from Suc.IH [OF this] False show ?thesis
      by (simp add: configure_plane_nth_other)
  qed
qed

lemma camera_transfer_size_supported:
  assumes "supported_format f" and "i < unat (format_num_planes f)"
  shows "camera_transfer_size f (of_nat i)
           = (if f = FORMAT_YUV422 then (if i = 0 then DMA_SIZE_16 else DMA_SIZE_8)
              else DMA_SIZE_32)"
proof (cases "f = FORMAT_YUV422")
  case True
  with assms(2) have "i = 0 \<or> i = 1 \<or> i = 2"
    by (auto simp: format_num_planes_def format_codes)
  with True show ?thesis
    by (auto simp: camera_transfer_size_def format_codes)
next
  case False
  with assms(1) show ?thesis
    by (auto simp: supported_format_def camera_transfer_size_def)
qed

lemma unat_dma_offset:
  "unat (4 - ucast (dma_transfer_size_to_bytes sz) :: u32) = 4 - unat (dma_transfer_size_to_bytes sz)"
  by (cases sz) (simp_all add: dma_transfer_size_to_bytes_def)

lemma unat_dma_transfers:
  "unat (x div ucast (dma_transfer_size_to_bytes sz) :: u32)
     = unat x div unat (dma_transfer_size_to_bytes sz)"
  by (cases sz) (simp_all add: dma_transfer_size_to_bytes_def unat_div)

lemma sys_probe_failed_camera:
  "cameras sys_probe_failed 1 = Some (zero_camera\<lparr>platform := Some platform_instance\<rparr>)"
  "platform (zero_camera\<lparr>platform := Some platform_instance\<rparr>) = Some platform_instance"
  "camera_arrays_ok (zero_camera\<lparr>platform := Some platform_instance\<rparr>)"
  "pending (zero_camera\<lparr>platform := Some platform_instance\<rparr>) = None"
  by (simp_all add: sys_probe_failed_def zero_camera_def zero_camera_config_def
        camera_arrays_ok_def CAMERA_MAX_N_PLANES_def)

lemma plane_loop_dma_parameters:
  assumes "camera_arrays_ok c" and "supported_format format"
    and "i < unat (format_num_planes format)"
    and "length (dma_cfgs cfg0) = length (dma_cfgs (config c))"
    and "length (dma_offset cfg0) = length (dma_offset (config c))"
    and "length (dma_transfers cfg0) = length (dma_transfers (config c))"
    and "cfg = fold (configure_plane K c plat format width height)
                 [0..<unat (format_num_planes format)] cfg0"
  shows "transfer_data_size (dma_cfgs cfg ! i)
             = (if format = FORMAT_YUV422 then (if i = 0 then DMA_SIZE_16 else DMA_SIZE_8)
                else DMA_SIZE_32)
         \<and> unat (dma_transfer_size_to_bytes (transfer_data_size (dma_cfgs cfg ! i))) * 8
             = (if format = FORMAT_YUV422 then (if i = 0 then 16 else 8) else 32)
         \<and> unat (dma_offset cfg ! i)
             = 4 - unat (dma_transfer_size_to_bytes (transfer_data_size (dma_cfgs cfg ! i)))
         \<and> unat (dma_transfers cfg ! i)
             = unat (format_plane_size format (of_nat i) width height)
                 div unat (dma_transfer_size_to_bytes (transfer_data_size (dma_cfgs cfg ! i)))"
proof -
  let ?sz = "camera_transfer_size format (of_nat i)"
  from assms(3) format_num_planes_le [of format] have "i < CAMERA_MAX_N_PLANES"
    by simp
  with assms(1,4-6) have len: "i < length (dma_cfgs cfg0)" "i < length (dma_offset cfg0)"
      "i < length (dma_transfers cfg0)"
    by (simp_all add: camera_arrays_ok_def)
  note planes = fold_configure_plane_nth [OF assms(3) len, of K c plat format width height,
                  folded assms(7)]
  note sz = camera_transfer_size_supported [OF assms(2,3)]
  from planes have size: "transfer_data_size (dma_cfgs cfg ! i) = ?sz"
    by simp
  have bits: "unat (dma_transfer_size_to_bytes ?sz) * 8
                = (if format = FORMAT_YUV422 then (if i = 0 then 16 else 8) else 32)"
    by (simp add: sz dma_transfer_size_to_bytes_def)
  from planes have off: "unat (dma_offset cfg ! i) = 4 - unat (dma_transfer_size_to_bytes ?sz)"
    by (simp add: unat_dma_offset)
  from planes have cnt: "unat (dma_transfers cfg ! i)
      = unat (format_plane_size format (of_nat i) width height)
          div unat (dma_transfer_size_to_bytes ?sz)"
    by (simp add: unat_dma_transfers)
  from size sz bits off cnt show ?thesis
    by (simp only: simp_thms)
qed

text \<open>
  Claim C6, on the code. For a supported format and a plane \<open>i\<close> of it, the plane loop of
  \<open>camera_configure\<close>, run at 80 by 60 on the configuration of a context whose arrays have
  their declared sizes, gives the plane a DMA transfer size of 32 bits for the two packed
  formats, and for the planar format of 16 bits on plane 0 and 8 bits on planes 1 and 2; a
  byte offset of 4 minus the transfer size in bytes; and a transfer count of the plane's
  byte size divided by the transfer size in bytes. But \<open>camera_configure\<close> does not reach
  its plane loop: on such a context, with the platform pointer set, the call at 80 by 60
  does not return, and nothing is stored.
\<close>

theorem camera_configure_dma_parameters_unreached:
  assumes "cameras s p = Some c" and "platform c = Some plat" and "camera_arrays_ok c"
    and "supported_format format" and "i < unat (format_num_planes format)"
    and "cfg = fold (configure_plane K c plat format CAMERA_WIDTH_DIV8 CAMERA_HEIGHT_DIV8)
                 [0..<unat (format_num_planes format)]
                 ((config c)\<lparr>sm_cfgs := (sm_cfgs (config c))
                    [CAMERA_PIO_FRAME_SM :=
                       camera_pio_get_frame_sm_config K (pio plat) CAMERA_PIO_FRAME_SM
                         (frame_offset c) (base_pin plat)]\<rparr>)"
  shows "camera_configure K p format CAMERA_WIDTH_DIV8 CAMERA_HEIGHT_DIV8 s = Inl Out_of_bounds
         \<and> transfer_data_size (dma_cfgs cfg ! i)
             = (if format = FORMAT_YUV422 then (if i = 0 then DMA_SIZE_16 else DMA_SIZE_8)
                else DMA_SIZE_32)
         \<and> unat (dma_transfer_size_to_bytes (transfer_data_size (dma_cfgs cfg ! i))) * 8
             = (if format = FORMAT_YUV422 then (if i = 0 then 16 else 8) else 32)
         \<and> unat (dma_offset cfg ! i)
             = 4 - unat (dma_transfer_size_to_bytes (transfer_data_size (dma_cfgs cfg ! i)))
         \<and> unat (dma_transfers cfg ! i)
             = unat (format_plane_size format (of_nat i) CAMERA_WIDTH_DIV8 CAMERA_HEIGHT_DIV8)
                 div unat (dma_transfer_size_to_bytes (transfer_data_size (dma_cfgs cfg ! i)))"
proof -
  have halts: "camera_configure K p format CAMERA_WIDTH_DIV8 CAMERA_HEIGHT_DIV8 s
                 = Inl Out_of_bounds"
    using assms(1,2) by (rule camera_configure_halts)
  have loop: "transfer_data_size (dma_cfgs cfg ! i)
             = (if format = FORMAT_YUV422 then (if i = 0 then DMA_SIZE_16 else DMA_SIZE_8)
                else DMA_SIZE_32)
         \<and> unat (dma_transfer_size_to_bytes (transfer_data_size (dma_cfgs cfg ! i))) * 8
             = (if format = FORMAT_YUV422 then (if i = 0 then 16 else 8) else 32)
         \<and> unat (dma_offset cfg ! i)
             = 4 - unat (dma_transfer_size_to_bytes (transfer_data_size (dma_cfgs cfg ! i)))
         \<and> unat (dma_transfers cfg ! i)
             = unat (format_plane_size format (of_nat i) CAMERA_WIDTH_DIV8 CAMERA_HEIGHT_DIV8)
                 div unat (dma_transfer_size_to_bytes (transfer_data_size (dma_cfgs cfg ! i)))"
    by (rule plane_loop_dma_parameters [OF assms(3-5) _ _ _ assms(6)]) simp_all
  from halts loop show ?thesis
    by (rule conjI)
qed

theorem camera_configure_dma_parameters_unreached_witness:
  "cameras sys_probe_failed 1 = Some (zero_camera\<lparr>platform := Some platform_instance\<rparr>)
   \<and> platform (zero_camera\<lparr>platform := Some platform_instance\<rparr>) = Some platform_instance
   \<and> camera_arrays_ok (zero_camera\<lparr>platform := Some platform_instance\<rparr>)
   \<and> supported_format FORMAT_YUV422 \<and> 1 < unat (format_num_planes FORMAT_YUV422)
   \<and> camera_configure sdk_instance 1 FORMAT_YUV422 80 60 sys_probe_failed = Inl Out_of_bounds
   \<and> (\<exists>cfg. cfg = fold (configure_plane sdk_instance
                           (zero_camera\<lparr>platform := Some platform_instance\<rparr>)
                           platform_instance FORMAT_YUV422 80 60)
                    [0..<unat (format_num_planes FORMAT_YUV422)]
                    ((config (zero_camera\<lparr>platform := Some platform_instance\<rparr>))
                       \<lparr>sm_cfgs := (sm_cfgs (config (zero_camera\<lparr>platform := Some platform_instance\<rparr>)))
                          [CAMERA_PIO_FRAME_SM :=
                             camera_pio_get_frame_sm_config sdk_instance (pio platform_instance)
                               CAMERA_PIO_FRAME_SM
                               (frame_offset (zero_camera\<lparr>platform := Some platform_instance\<rparr>))
                               (base_pin platform_instance)]\<rparr>)
         \<and> transfer_data_size (dma_cfgs cfg ! 1) = DMA_SIZE_8
         \<and> unat (dma_offset cfg ! 1) = 3
         \<and> unat (dma_transfers cfg ! 1) = 2400)"
proof -
  let ?c = "zero_camera\<lparr>platform := Some platform_instance\<rparr>"
  let ?cfg = "fold (configure_plane sdk_instance ?c platform_instance FORMAT_YUV422 80 60)
                [0..<unat (format_num_planes FORMAT_YUV422)]
                ((config ?c)\<lparr>sm_cfgs := (sm_cfgs (config ?c))
                    [CAMERA_PIO_FRAME_SM :=
                       camera_pio_get_frame_sm_config sdk_instance (pio platform_instance)
                         CAMERA_PIO_FRAME_SM (frame_offset ?c) (base_pin platform_instance)]\<rparr>)"
  have f: "supported_format FORMAT_YUV422"
    by (simp add: supported_format_def)
  have i: "1 < unat (format_num_planes FORMAT_YUV422)"
    by (simp add: scenario_yuv422)
  have cfg: "?cfg = fold (configure_plane sdk_instance ?c platform_instance FORMAT_YUV422
                            CAMERA_WIDTH_DIV8 CAMERA_HEIGHT_DIV8)
                [0..<unat (format_num_planes FORMAT_YUV422)]
                ((config ?c)\<lparr>sm_cfgs := (sm_cfgs (config ?c))
                    [CAMERA_PIO_FRAME_SM :=
                       camera_pio_get_frame_sm_config sdk_instance (pio platform_instance)
                         CAMERA_PIO_FRAME_SM (frame_offset ?c) (base_pin platform_instance)]\<rparr>)"
    by (simp only: CAMERA_WIDTH_DIV8_def CAMERA_HEIGHT_DIV8_def)
  from camera_configure_dma_parameters_unreached [OF sys_probe_failed_camera(1-3) f i cfg]
  have "camera_configure sdk_instance 1 FORMAT_YUV422 CAMERA_WIDTH_DIV8 CAMERA_HEIGHT_DIV8
          sys_probe_failed = Inl Out_of_bounds"
      "transfer_data_size (dma_cfgs ?cfg ! 1) = DMA_SIZE_8"
      "unat (dma_offset ?cfg ! 1)
         = 4 - unat (dma_transfer_size_to_bytes (transfer_data_size (dma_cfgs ?cfg ! 1)))"
      "unat (dma_transfers ?cfg ! 1)
         = unat (format_plane_size FORMAT_YUV422 (of_nat 1) CAMERA_WIDTH_DIV8 CAMERA_HEIGHT_DIV8)
             div unat (dma_transfer_size_to_bytes (transfer_data_size (dma_cfgs ?cfg ! 1)))"
    by simp_all
  then have "camera_configure sdk_instance 1 FORMAT_YUV422 80 60 sys_probe_failed
               = Inl Out_of_bounds"
      and "transfer_data_size (dma_cfgs ?cfg ! 1) = DMA_SIZE_8
      \<and> unat (dma_offset ?cfg ! 1) = 3
      \<and> unat (dma_transfers ?cfg ! 1) = 2400"
    by (simp_all add: CAMERA_WIDTH_DIV8_def CAMERA_HEIGHT_DIV8_def dma_transfer_size_to_bytes_def
          scenario_yuv422)
  with sys_probe_failed_camera(1-3) f i show ?thesis
    by (intro conjI exI [of _ ?cfg]) (simp_all only: simp_thms)
qed

text \<open>
  Claim C9, on the code. On a context whose platform pointer is set, the first
  \<open>camera_configure\<close> at 80 by 60 does not return, whatever the format, so that there is no
  state in which a second call could follow it. Whenever a call of \<open>camera_configure\<close>
  returns at all, it has returned -1 and changed nothing: no call stores a
  configuration.
\<close>

theorem camera_configure_first_call_halts:
  "(cameras s p = Some c \<and> platform c = Some plat \<longrightarrow>
      camera_configure K p format 80 60 s = Inl Out_of_bounds
      \<and> \<not> (\<exists>s1 s2. camera_configure K p format 80 60 s = Inr (0, s1)
                   \<and> camera_configure K p format 80 60 s1 = Inr (0, s2)))
   \<and> (\<forall>rc s1. camera_configure K q format' width height s = Inr (rc, s1) \<longrightarrow>
                rc = - 1 \<and> s1 = s)"
proof -
  have "camera_configure K p format 80 60 s = Inl Out_of_bounds"
    if "cameras s p = Some c" "platform c = Some plat"
    using camera_configure_halts [OF that, of K format]
    by (simp add: CAMERA_WIDTH_DIV8_def CAMERA_HEIGHT_DIV8_def)
  moreover have "rc = - 1 \<and> s1 = s"
    if "camera_configure K q format' width height s = Inr (rc, s1)" for rc s1
    using that
    by (auto simp: camera_configure_def OV7670_set_format_halts
             split: if_splits option.splits)
  ultimately show ?thesis
    by auto
qed

theorem camera_configure_first_call_halts_witness:
  "cameras sys_probe_failed 1 = Some (zero_camera\<lparr>platform := Some platform_instance\<rparr>)
   \<and> platform (zero_camera\<lparr>platform := Some platform_instance\<rparr>) = Some platform_instance
   \<and> camera_configure sdk_instance 1 FORMAT_YUYV 80 60 sys_probe_failed = Inl Out_of_bounds
   \<and> camera_configure sdk_instance 1 FORMAT_YUYV 80 61 sys_probe_failed
       = Inr (- 1, sys_probe_failed)"
proof -
  have rej: "camera_configure sdk_instance 1 FORMAT_YUYV 80 61 sys_probe_failed
               = Inr (- 1, sys_probe_failed)"
    by (simp add: camera_configure_def CAMERA_HEIGHT_DIV8_def)
  from camera_configure_first_call_halts
         [of sys_probe_failed 1 "zero_camera\<lparr>platform := Some platform_instance\<rparr>"
             platform_instance sdk_instance FORMAT_YUYV 1 FORMAT_YUYV 80 61]
       sys_probe_failed_camera(1,2) rej
  show ?thesis
    by blast
qed
section \<open>Facts about the resource lifecycle\<close>

lemma camera_detect_loop_silent:
  "i2c_replies s = [] \<Longrightarrow>
     camera_detect_loop n v s =
       (v, emit (concat (replicate n [I2c_write_blocking OV7670_ADDR [OV7670_REG_PID],
                                      Sleep_ms 100])) s)"
proof (induction n arbitrary: s)
  case 0
  then show ?case by (simp add: emit_def)
next
  case (Suc n)
  let ?s1 = "sleep_ms 100 (emit [I2c_write_blocking OV7670_ADDR [OV7670_REG_PID]] s)"
  from Suc.prems have "i2c_replies ?s1 = []"
    by (simp add: sleep_ms_def)
  from Suc.IH [OF this] Suc.prems show ?case
    by (simp add: i2c_write_blocking_def sleep_ms_def emit_def)
qed

lemma camera_detect_silent:
  "i2c_replies s = [] \<Longrightarrow>
     camera_detect s =
       (False, emit (concat (replicate 5 [I2c_write_blocking OV7670_ADDR [OV7670_REG_PID],
                                          Sleep_ms 100])) s)"
  by (simp add: camera_detect_def camera_detect_loop_silent)

lemma upt_planes: "[0..<CAMERA_MAX_N_PLANES] = [0, 1, 2]"
  by (simp add: CAMERA_MAX_N_PLANES_def upt_rec)

lemma camera_init_no_sensor:
  "camera_init sdk_instance 1 platform_instance sys_channel0_taken =
     Inr (- 1, \<lparr>cameras = [1 \<mapsto> zero_camera\<lparr>platform := Some platform_instance\<rparr>],
               irq_ctxs = [None, None], irq_enabled = [False, False], dma_claimed = {0},
               i2c_replies = [],
               trace = [Clock_gpio_init 21 9, Sleep_ms 300,
                        I2c_write_blocking 0x21 [0x0A], Sleep_ms 100,
                        I2c_write_blocking 0x21 [0x0A], Sleep_ms 100,
                        I2c_write_blocking 0x21 [0x0A], Sleep_ms 100,
                        I2c_write_blocking 0x21 [0x0A], Sleep_ms 100,
                        I2c_write_blocking 0x21 [0x0A], Sleep_ms 100]\<rparr>)"
  by (simp add: camera_init_def Let_def camera_detect_silent sys_channel0_taken_def sys_reset_def
        sleep_ms_def emit_def platform_instance_def OV7670_ADDR_def OV7670_REG_PID_def
        eval_nat_numeral)

lemma zero_camera_channels:
  "zero_camera =
     \<lparr>platform = None, frame_offset = 0, shift_byte_offset = 0, dma_channels = [0, 0, 0],
      config = zero_camera_config, pending = None, pending_cb = None, cb_data = None\<rparr>"
  by (simp add: zero_camera_def CAMERA_MAX_N_PLANES_def eval_nat_numeral)

lemma zero_camera_config_format: "cfg_format zero_camera_config = 0"
  by (simp add: zero_camera_config_def)

lemma format_num_planes_0: "format_num_planes 0 = 0"
  by (simp add: format_num_planes_def format_codes)

lemma camera_init_probe_failed:
  "camera_init sdk_instance 1 platform_instance sys_reset = Inr (- 1, sys_probe_failed)"
  by (simp add: camera_init_def Let_def camera_detect_silent sys_probe_failed_def sys_reset_def
        sleep_ms_def emit_def platform_instance_def)

text \<open>
  Once the sensor has been detected, \<open>camera_init\<close> calls \<open>OV7670_begin\<close>, which does not
  return: no call of \<open>camera_init\<close> returns 0.
\<close>

lemma camera_init_sensor_present:
  "camera_init sdk_instance 1 platform_instance sys_sensor_present = Inl Out_of_bounds"
  by (simp add: camera_init_def Let_def camera_detect_def sys_sensor_present_def sys_reset_def
        sleep_ms_def emit_def OV7670_ADDR_def OV7670_REG_PID_def
        i2c_write_blocking_def i2c_read_blocking_def OV7670_begin_halts eval_nat_numeral)

lemma camera_init_code:
  "camera_init K p params s = Inr (rc, s') \<Longrightarrow> rc = - 1"
  by (auto simp: camera_init_def Let_def OV7670_begin_halts split: prod.splits if_splits)

text \<open>
  On a context that is capturing, \<open>camera_term\<close> releases the context's three channels,
  clears the registration and the pending slot, and calls no callback.
\<close>

lemma camera_term_while_capturing:
  "camera_term (Some 1) sys_capturing =
     Inr (sys_capturing
            \<lparr>cameras := [1 \<mapsto> camera_instance\<lparr>dma_channels := [- 1, - 1, - 1]\<rparr>],
              irq_ctxs := [None, None], irq_enabled := [False, False], dma_claimed := {},
              trace := [Pio_sm_set_enabled pio0 0 False, Irq_set_enabled PIO0_IRQ_0 False,
                        Dma_channel_unclaim 0, Dma_channel_unclaim 1, Dma_channel_unclaim 2]\<rparr>)"
proof -
  have loop: "unclaim_channels [0, 1, 2] [0, 1, 2] s
                = ([- 1, - 1, - 1],
                   dma_channel_unclaim 2 (dma_channel_unclaim 1 (dma_channel_unclaim 0 s)))" for s
    by (simp add: eval_nat_numeral)
  show ?thesis
    by (simp add: camera_term_def Let_def sys_capturing_def sys_instance_def camera_capturing_def
          camera_instance_def zero_camera_channels zero_camera_config_format format_num_planes_0
          upt_planes loop platform_instance_def irq_set_enabled_def irq_index_def
          dma_channel_unclaim_def emit_def CAMERA_PIO_FRAME_SM_def)
qed

text \<open>
  Claim C8, on the code. \<open>camera_init\<close> on a system whose sensor does not answer and
  where other code holds DMA channel 0: detection fails, \<open>camera_init\<close> returns -1 without
  having claimed a channel, and the context's \<open>dma_channels\<close> are the three zeroes of the
  initialiser. \<open>camera_term\<close> on this context then finds each entry \<open>>= 0\<close> and calls
  \<open>dma_channel_unclaim(0)\<close> three times: channel 0, which the context never claimed, is
  released.
\<close>

theorem camera_term_after_failed_init:
  "\<exists>s1 s2 c1 c2.
      camera_init sdk_instance 1 platform_instance sys_channel0_taken = Inr (- 1, s1)
    \<and> cameras s1 1 = Some c1 \<and> dma_channels c1 = [0, 0, 0]
    \<and> dma_claimed s1 = dma_claimed sys_channel0_taken \<and> dma_claimed s1 = {0}
    \<and> trace s1 = [Clock_gpio_init 21 9, Sleep_ms 300,
                   I2c_write_blocking 0x21 [0x0A], Sleep_ms 100,
                   I2c_write_blocking 0x21 [0x0A], Sleep_ms 100,
                   I2c_write_blocking 0x21 [0x0A], Sleep_ms 100,
                   I2c_write_blocking 0x21 [0x0A], Sleep_ms 100,
                   I2c_write_blocking 0x21 [0x0A], Sleep_ms 100]
    \<and> camera_term (Some 1) s1 = Inr s2
    \<and> dma_claimed s2 = {}
    \<and> trace s2 = trace s1 @ [Pio_sm_set_enabled pio0 0 False, Irq_set_enabled PIO0_IRQ_0 False,
                              Dma_channel_unclaim 0, Dma_channel_unclaim 0, Dma_channel_unclaim 0]
    \<and> cameras s2 1 = Some c2 \<and> dma_channels c2 = [- 1, - 1, - 1]"
proof -
  let ?s1 = "\<lparr>cameras = [1 \<mapsto> zero_camera\<lparr>platform := Some platform_instance\<rparr>],
               irq_ctxs = [None, None], irq_enabled = [False, False], dma_claimed = {0},
               i2c_replies = [],
               trace = [Clock_gpio_init 21 9, Sleep_ms 300,
                        I2c_write_blocking 0x21 [0x0A], Sleep_ms 100,
                        I2c_write_blocking 0x21 [0x0A], Sleep_ms 100,
                        I2c_write_blocking 0x21 [0x0A], Sleep_ms 100,
                        I2c_write_blocking 0x21 [0x0A], Sleep_ms 100,
                        I2c_write_blocking 0x21 [0x0A], Sleep_ms 100]\<rparr>"
  let ?c1 = "zero_camera\<lparr>platform := Some platform_instance\<rparr>"
  have chans: "dma_channels ?c1 = [0, 0, 0]"
    by (simp add: zero_camera_channels)
  have planes: "unat (format_num_planes (cfg_format (config ?c1))) = 0"
    by (simp add: zero_camera_channels zero_camera_config_format format_num_planes_0)
  have loop: "unclaim_channels [0, 1, 2] [0, 0, 0] s
                = ([- 1, - 1, - 1],
                   dma_channel_unclaim 0 (dma_channel_unclaim 0 (dma_channel_unclaim 0 s)))" for s
    by (simp add: eval_nat_numeral)
  have fin: "camera_term (Some 1) ?s1 =
      Inr (?s1\<lparr>cameras := [1 \<mapsto> ?c1\<lparr>dma_channels := [- 1, - 1, - 1]\<rparr>],
                dma_claimed := {},
                trace := trace ?s1 @ [Pio_sm_set_enabled pio0 0 False,
                                      Irq_set_enabled PIO0_IRQ_0 False,
                                      Dma_channel_unclaim 0, Dma_channel_unclaim 0,
                                      Dma_channel_unclaim 0]\<rparr>)"
    by (simp add: camera_term_def Let_def upt_planes loop platform_instance_def
          irq_set_enabled_def irq_index_def dma_channel_unclaim_def emit_def
          CAMERA_PIO_FRAME_SM_def zero_camera_channels zero_camera_config_format
          format_num_planes_0)
  let ?s2 = "?s1\<lparr>cameras := [1 \<mapsto> ?c1\<lparr>dma_channels := [- 1, - 1, - 1]\<rparr>],
                dma_claimed := {},
                trace := trace ?s1 @ [Pio_sm_set_enabled pio0 0 False,
                                      Irq_set_enabled PIO0_IRQ_0 False,
                                      Dma_channel_unclaim 0, Dma_channel_unclaim 0,
                                      Dma_channel_unclaim 0]\<rparr>"
  have a: "camera_init sdk_instance 1 platform_instance sys_channel0_taken = Inr (- 1, ?s1)"
    by (rule camera_init_no_sensor)
  have b: "cameras ?s1 1 = Some ?c1"
    by simp
  have c: "dma_claimed ?s1 = dma_claimed sys_channel0_taken" "dma_claimed ?s1 = {0}"
    by (simp_all add: sys_channel0_taken_def)
  have d: "trace ?s1 = [Clock_gpio_init 21 9, Sleep_ms 300,
                   I2c_write_blocking 0x21 [0x0A], Sleep_ms 100,
                   I2c_write_blocking 0x21 [0x0A], Sleep_ms 100,
                   I2c_write_blocking 0x21 [0x0A], Sleep_ms 100,
                   I2c_write_blocking 0x21 [0x0A], Sleep_ms 100,
                   I2c_write_blocking 0x21 [0x0A], Sleep_ms 100]"
    by simp
  have e: "dma_claimed ?s2 = {}"
    by simp
  have f: "trace ?s2 = trace ?s1 @ [Pio_sm_set_enabled pio0 0 False, Irq_set_enabled PIO0_IRQ_0 False,
                              Dma_channel_unclaim 0, Dma_channel_unclaim 0, Dma_channel_unclaim 0]"
    by simp
  have g: "cameras ?s2 1 = Some (?c1\<lparr>dma_channels := [- 1, - 1, - 1]\<rparr>)"
      "dma_channels (?c1\<lparr>dma_channels := [- 1, - 1, - 1]\<rparr>) = [- 1, - 1, - 1]"
    by simp_all
  from a b chans c d fin e f g show ?thesis
    by blast
qed

theorem camera_term_after_failed_init_witness:
  "\<exists>s1 s2.
      camera_init sdk_instance 1 platform_instance sys_channel0_taken = Inr (- 1, s1)
    \<and> camera_term (Some 1) s1 = Inr s2
    \<and> dma_claimed s1 = {0} \<and> dma_claimed s2 = {}"
  using camera_term_after_failed_init by blast
section \<open>Facts about capture and completion\<close>

lemma camera_do_frame_busy:
  "cameras s p = Some c \<Longrightarrow> pending c \<noteq> None \<Longrightarrow>
     camera_do_frame K cbs irq p bufp buf cb d allow blocking s = Inr (- 2, s)"
  by (simp add: camera_do_frame_def)

lemma camera_configure_code:
  "camera_configure K p f w h s = Inr (rc, s') \<Longrightarrow> rc = 0 \<or> rc = - 1"
  by (auto simp: camera_configure_def Let_def
           split: if_splits option.splits sum.splits prod.splits)

lemma camera_do_frame_idle_code:
  assumes "cameras s p = Some c" and "pending c = None"
    and "camera_do_frame K cbs irq p bufp buf cb d allow blocking s = Inr (rc, s')"
  shows "rc = 0 \<or> rc = - 1"
  using assms
  by (auto simp: camera_do_frame_def Let_def
           split: if_splits option.splits sum.splits prod.splits)

text \<open>
  Claim C1. On a context whose pending slot is occupied, \<open>camera_do_frame\<close>, and so
  \<open>camera_capture_blocking\<close> and \<open>camera_capture_with_cb\<close>, return -2 and the system state
  is the one before the call: the pending buffer, callback and user data, every DMA and
  PIO call made so far and the configured format, width and height are untouched. The
  code -2 is returned in no other case: a call on a context whose slot is free never
  returns it.
\<close>

theorem capture_busy:
  assumes "cameras s p = Some c" and "pending c \<noteq> None"
  shows "camera_do_frame K cbs irq p bufp buf cb d allow blocking s = Inr (- 2, s)
       \<and> camera_capture_blocking K cbs irq p bufp buf allow s = Inr (- 2, s)
       \<and> camera_capture_with_cb K cbs irq p bufp buf allow cb d s = Inr (- 2, s)
       \<and> (\<forall>s0 c0 rc s'.
             cameras s0 p = Some c0 \<and> pending c0 = None
             \<and> camera_do_frame K cbs irq p bufp buf cb d allow blocking s0 = Inr (rc, s')
             \<longrightarrow> rc \<noteq> - 2)"
proof -
  have "rc \<noteq> - 2"
    if "cameras s0 p = Some c0" "pending c0 = None"
       "camera_do_frame K cbs irq p bufp buf cb d allow blocking s0 = Inr (rc, s')"
    for s0 c0 rc s'
    using camera_do_frame_idle_code [OF that] by auto
  then show ?thesis
    using assms
    by (simp add: camera_capture_blocking_def camera_capture_with_cb_def camera_do_frame_busy)
       blast
qed


theorem capture_busy_witness:
  "cameras sys_capturing 1 = Some camera_capturing \<and> pending camera_capturing \<noteq> None
   \<and> camera_do_frame sdk_instance cbs_skip (Some 0) 1 8 buffer_80x60 None None True True sys_capturing
         = Inr (- 2, sys_capturing)
   \<and> camera_capture_blocking sdk_instance cbs_skip (Some 0) 1 8 buffer_80x60 True sys_capturing
         = Inr (- 2, sys_capturing)
   \<and> camera_capture_with_cb sdk_instance cbs_skip (Some 0) 1 8 buffer_80x60 True None None sys_capturing
         = Inr (- 2, sys_capturing)"
proof -
  have a: "cameras sys_capturing 1 = Some camera_capturing"
    by (simp add: sys_capturing_def)
  have b: "pending camera_capturing \<noteq> None"
    by (simp add: camera_capturing_def)
  from capture_busy [OF a b, of sdk_instance cbs_skip "Some 0" 8 buffer_80x60 None None True True] a b
  show ?thesis
    by blast
qed

lemma camera_isr_idle:
  "camera = None \<or> (\<exists>p c. camera = Some p \<and> cameras s p = Some c \<and> pending c = None) \<Longrightarrow>
     camera_isr cbs camera s = Inr s"
  by (auto simp: camera_isr_def)

lemma camera_isr_complete:
  assumes "cameras s p = Some c" and "pending c = Some b"
    and "cameras (case pending_cb c of
                    None \<Rightarrow> s
                  | Some f \<Rightarrow> cbs f b (cb_data c) (emit [Frame_cb_call f b (cb_data c)] s)) p
           = Some c1"
  shows "camera_isr cbs (Some p) s =
           Inr ((case pending_cb c of
                   None \<Rightarrow> s
                 | Some f \<Rightarrow> cbs f b (cb_data c) (emit [Frame_cb_call f b (cb_data c)] s))
                \<lparr>cameras :=
                   (cameras (case pending_cb c of
                               None \<Rightarrow> s
                             | Some f \<Rightarrow> cbs f b (cb_data c)
                                          (emit [Frame_cb_call f b (cb_data c)] s)))
                   (p \<mapsto> c1\<lparr>pending := None\<rparr>)\<rparr>)"
  using assms by (simp add: camera_isr_def Let_def)

text \<open>
  Claim C7. The interrupt handler of PIO block 0 (and likewise of block 1): when a
  context is registered in \<open>irq_ctxs\<close> for the block and its pending slot holds a buffer
  \<open>b\<close>, the handler first calls the stored callback, if there is one, with \<open>b\<close> and the
  user data (the system after it is \<open>s_cb\<close>), then clears the pending slot of the context,
  and last clears the interrupt flag of the block. When no context is registered, or the
  slot of the registered one is free, the state changes by the clearing of the flag only.
\<close>

theorem frame_isr_completion:
  "(irq_ctxs s ! 0 = Some p \<and> cameras s p = Some c \<and> pending c = Some b
      \<and> s_cb = (case pending_cb c of
                  None \<Rightarrow> s
                | Some f \<Rightarrow> cbs f b (cb_data c) (emit [Frame_cb_call f b (cb_data c)] s))
      \<and> cameras s_cb p = Some c1
    \<longrightarrow> camera_isr_pio0 cbs s =
          Inr (emit [Pio_interrupt_clear pio0 0]
                 (s_cb\<lparr>cameras := (cameras s_cb)(p \<mapsto> c1\<lparr>pending := None\<rparr>)\<rparr>)))
   \<and> (irq_ctxs s ! 0 = None
        \<or> (\<exists>q cq. irq_ctxs s ! 0 = Some q \<and> cameras s q = Some cq \<and> pending cq = None)
    \<longrightarrow> camera_isr_pio0 cbs s = Inr (emit [Pio_interrupt_clear pio0 0] s))
   \<and> (irq_ctxs s ! 1 = Some p \<and> cameras s p = Some c \<and> pending c = Some b
      \<and> s_cb = (case pending_cb c of
                  None \<Rightarrow> s
                | Some f \<Rightarrow> cbs f b (cb_data c) (emit [Frame_cb_call f b (cb_data c)] s))
      \<and> cameras s_cb p = Some c1
    \<longrightarrow> camera_isr_pio1 cbs s =
          Inr (emit [Pio_interrupt_clear pio1 0]
                 (s_cb\<lparr>cameras := (cameras s_cb)(p \<mapsto> c1\<lparr>pending := None\<rparr>)\<rparr>)))
   \<and> (irq_ctxs s ! 1 = None
        \<or> (\<exists>q cq. irq_ctxs s ! 1 = Some q \<and> cameras s q = Some cq \<and> pending cq = None)
    \<longrightarrow> camera_isr_pio1 cbs s = Inr (emit [Pio_interrupt_clear pio1 0] s))"
proof (intro conjI impI)
  assume "irq_ctxs s ! 0 = Some p \<and> cameras s p = Some c \<and> pending c = Some b
      \<and> s_cb = (case pending_cb c of
                  None \<Rightarrow> s
                | Some f \<Rightarrow> cbs f b (cb_data c) (emit [Frame_cb_call f b (cb_data c)] s))
      \<and> cameras s_cb p = Some c1"
  then have reg: "irq_ctxs s ! 0 = Some p" and cam: "cameras s p = Some c"
      and pend: "pending c = Some b"
      and after_cb: "s_cb = (case pending_cb c of
                  None \<Rightarrow> s
                | Some f \<Rightarrow> cbs f b (cb_data c) (emit [Frame_cb_call f b (cb_data c)] s))"
      and after: "cameras s_cb p = Some c1"
    by blast+
  from camera_isr_complete [of s p c b cbs c1, OF cam pend after [unfolded after_cb]]
  have "camera_isr cbs (Some p) s
          = Inr (s_cb\<lparr>cameras := (cameras s_cb)(p \<mapsto> c1\<lparr>pending := None\<rparr>)\<rparr>)"
    by (simp only: after_cb)
  then show "camera_isr_pio0 cbs s =
          Inr (emit [Pio_interrupt_clear pio0 0]
                 (s_cb\<lparr>cameras := (cameras s_cb)(p \<mapsto> c1\<lparr>pending := None\<rparr>)\<rparr>))"
    using reg by (simp add: camera_isr_pio0_def)
next
  assume "irq_ctxs s ! 0 = None
        \<or> (\<exists>q cq. irq_ctxs s ! 0 = Some q \<and> cameras s q = Some cq \<and> pending cq = None)"
  then show "camera_isr_pio0 cbs s = Inr (emit [Pio_interrupt_clear pio0 0] s)"
    using camera_isr_idle [of "irq_ctxs s ! 0" s cbs] by (simp add: camera_isr_pio0_def)
next
  assume "irq_ctxs s ! 1 = Some p \<and> cameras s p = Some c \<and> pending c = Some b
      \<and> s_cb = (case pending_cb c of
                  None \<Rightarrow> s
                | Some f \<Rightarrow> cbs f b (cb_data c) (emit [Frame_cb_call f b (cb_data c)] s))
      \<and> cameras s_cb p = Some c1"
  then have reg: "irq_ctxs s ! 1 = Some p" and cam: "cameras s p = Some c"
      and pend: "pending c = Some b"
      and after_cb: "s_cb = (case pending_cb c of
                  None \<Rightarrow> s
                | Some f \<Rightarrow> cbs f b (cb_data c) (emit [Frame_cb_call f b (cb_data c)] s))"
      and after: "cameras s_cb p = Some c1"
    by blast+
  from camera_isr_complete [of s p c b cbs c1, OF cam pend after [unfolded after_cb]]
  have "camera_isr cbs (Some p) s
          = Inr (s_cb\<lparr>cameras := (cameras s_cb)(p \<mapsto> c1\<lparr>pending := None\<rparr>)\<rparr>)"
    by (simp only: after_cb)
  then show "camera_isr_pio1 cbs s =
          Inr (emit [Pio_interrupt_clear pio1 0]
                 (s_cb\<lparr>cameras := (cameras s_cb)(p \<mapsto> c1\<lparr>pending := None\<rparr>)\<rparr>))"
    using reg by (simp add: camera_isr_pio1_def)
next
  assume "irq_ctxs s ! 1 = None
        \<or> (\<exists>q cq. irq_ctxs s ! 1 = Some q \<and> cameras s q = Some cq \<and> pending cq = None)"
  then show "camera_isr_pio1 cbs s = Inr (emit [Pio_interrupt_clear pio1 0] s)"
    using camera_isr_idle [of "irq_ctxs s ! 1" s cbs] by (simp add: camera_isr_pio1_def)
qed


theorem frame_isr_completion_witness:
  "irq_ctxs sys_capturing ! 0 = Some 1 \<and> cameras sys_capturing 1 = Some camera_capturing
   \<and> pending camera_capturing = Some 7 \<and> pending_cb camera_capturing = Some 3
   \<and> camera_isr_pio0 cbs_skip sys_capturing =
         Inr (sys_capturing\<lparr>cameras := [1 \<mapsto> camera_capturing\<lparr>pending := None\<rparr>],
                            trace := [Frame_cb_call 3 7 (Some 9), Pio_interrupt_clear pio0 0]\<rparr>)
   \<and> irq_ctxs sys_capturing ! 1 = None
   \<and> camera_isr_pio1 cbs_skip sys_capturing =
         Inr (sys_capturing\<lparr>trace := [Pio_interrupt_clear pio1 0]\<rparr>)"
proof -
  let ?s_cb = "emit [Frame_cb_call 3 7 (Some 9)] sys_capturing"
  have reg: "irq_ctxs sys_capturing ! 0 = Some 1" "irq_ctxs sys_capturing ! 1 = None"
    and cam: "cameras sys_capturing 1 = Some camera_capturing"
    and tr: "trace sys_capturing = []"
    by (simp_all add: sys_capturing_def sys_instance_def)
  have pend: "pending camera_capturing = Some 7" "pending_cb camera_capturing = Some 3"
      "cb_data camera_capturing = Some 9"
    by (simp_all add: camera_capturing_def)
  have s_cb: "?s_cb = (case pending_cb camera_capturing of
                  None \<Rightarrow> sys_capturing
                | Some f \<Rightarrow> cbs_skip f 7 (cb_data camera_capturing)
                              (emit [Frame_cb_call f 7 (cb_data camera_capturing)] sys_capturing))"
    by (simp add: pend cbs_skip_def)
  have after: "cameras ?s_cb 1 = Some camera_capturing"
    using cam by (simp add: emit_def)
  note th = frame_isr_completion [of sys_capturing 1 camera_capturing 7 ?s_cb cbs_skip
                                     camera_capturing]
  from th reg cam pend s_cb after
  have "camera_isr_pio0 cbs_skip sys_capturing =
          Inr (emit [Pio_interrupt_clear pio0 0]
                 (?s_cb\<lparr>cameras := (cameras ?s_cb)
                                      (1 \<mapsto> camera_capturing\<lparr>pending := None\<rparr>)\<rparr>))"
    by blast
  then have one: "camera_isr_pio0 cbs_skip sys_capturing =
         Inr (sys_capturing\<lparr>cameras := [1 \<mapsto> camera_capturing\<lparr>pending := None\<rparr>],
                            trace := [Frame_cb_call 3 7 (Some 9), Pio_interrupt_clear pio0 0]\<rparr>)"
    by (simp add: emit_def tr) (simp add: sys_capturing_def)
  from th reg have "camera_isr_pio1 cbs_skip sys_capturing
                      = Inr (emit [Pio_interrupt_clear pio1 0] sys_capturing)"
    by blast
  then have two: "camera_isr_pio1 cbs_skip sys_capturing =
         Inr (sys_capturing\<lparr>trace := [Pio_interrupt_clear pio1 0]\<rparr>)"
    by (simp add: emit_def tr)
  from reg cam pend one two show ?thesis
    by blast
qed

lemma camera_do_frame_refused:
  assumes "cameras s p = Some c" and "pending c = None"
    and "cfg_format (config c) \<noteq> buf_format buf \<or> cfg_width (config c) \<noteq> buf_width buf
           \<or> cfg_height (config c) \<noteq> buf_height buf"
  shows "camera_do_frame K cbs irq p bufp buf cb d False blocking s = Inr (- 1, s)"
  using assms by (auto simp: camera_do_frame_def Let_def)

lemma camera_do_frame_failed_reconfigure:
  assumes "cameras s p = Some c" and "pending c = None" and "platform c = Some plat"
    and "buf_width buf \<noteq> CAMERA_WIDTH_DIV8 \<or> buf_height buf \<noteq> CAMERA_HEIGHT_DIV8"
    and "cfg_format (config c) \<noteq> buf_format buf \<or> cfg_width (config c) \<noteq> buf_width buf
           \<or> cfg_height (config c) \<noteq> buf_height buf"
  shows "camera_do_frame K cbs irq p bufp buf cb d True False s =
           Inr (0, emit [Camera_pio_trigger_frame (pio plat)
                           (ucast (buf_width buf)
                              div ucast (camera_pixels_per_chunk (buf_format buf)))
                           (ucast (buf_height buf))]
                     ((emit (map (\<lambda>i. Dma_channel_configure (dma_channels c ! i)
                                          (dma_cfgs (config c) ! i) (data buf ! i)
                                          (pio plat) (i + 1) (dma_offset (config c) ! i)
                                          (dma_transfers (config c) ! i) True)
                               [0..<unat (format_num_planes (cfg_format (config c)))]) s)
                      \<lparr>cameras := (cameras s)
                         (p \<mapsto> c\<lparr>pending := Some bufp, pending_cb := cb, cb_data := d\<rparr>)\<rparr>))"
proof -
  from assms(4) have rej: "camera_configure K p (buf_format buf) (buf_width buf) (buf_height buf) s
                             = Inr (- 1, s)"
    by (rule camera_configure_rejects)
  from assms(1-3,5) rej show ?thesis
    by (auto simp: camera_do_frame_def Let_def)
qed


text \<open>
  Claim C2, on the code. \<open>camera_init\<close> on a system whose sensor does not answer returns
  -1 and leaves a zeroed context: no format, width 0, height 0. This context is then
  given a buffer of the packed 16-bit colour format at 160 by 120 pixels with
  \<open>allow_reconfigure\<close> set. The implicit \<open>camera_configure\<close> rejects the size, returns -1 and
  changes nothing; its result is discarded, and \<open>camera_capture_with_cb\<close> returns 0 with
  the context's configuration as it was, its format, width and height still 0 and not
  those of the buffer: no DMA channel is armed, the pending slot is taken and the frame
  is triggered for 160 by 120.
\<close>

theorem capture_ignores_failed_reconfigure:
  "\<exists>s1 c1 s2 c2.
      camera_init sdk_instance 1 platform_instance sys_reset = Inr (- 1, s1)
    \<and> cameras s1 1 = Some c1 \<and> pending c1 = None
    \<and> camera_configure sdk_instance 1 FORMAT_RGB565 160 120 s1 = Inr (- 1, s1)
    \<and> camera_capture_with_cb sdk_instance cbs_skip None 1 8 buffer_160x120 True None None s1
          = Inr (0, s2)
    \<and> cameras s2 1 = Some c2
    \<and> config c2 = config c1
    \<and> cfg_format (config c2) = 0 \<and> cfg_width (config c2) = 0 \<and> cfg_height (config c2) = 0
    \<and> buf_format buffer_160x120 = FORMAT_RGB565
    \<and> buf_width buffer_160x120 = 160 \<and> buf_height buffer_160x120 = 120
    \<and> FORMAT_RGB565 \<noteq> 0
    \<and> pending c2 = Some 8
    \<and> trace s2 = trace s1 @ [Camera_pio_trigger_frame pio0 80 120]"
proof -
  let ?c1 = "zero_camera\<lparr>platform := Some platform_instance\<rparr>"
  let ?c2 = "?c1\<lparr>pending := Some 8, pending_cb := None, cb_data := None\<rparr>"
  have init: "camera_init sdk_instance 1 platform_instance sys_reset = Inr (- 1, sys_probe_failed)"
    by (rule camera_init_probe_failed)
  note cam1 = sys_probe_failed_camera(1)
  have c1: "pending ?c1 = None" "platform ?c1 = Some platform_instance"
      "cfg_format (config ?c1) = 0" "cfg_width (config ?c1) = 0" "cfg_height (config ?c1) = 0"
    by (simp_all add: zero_camera_def zero_camera_config_def)
  have buf: "buf_width buffer_160x120 \<noteq> CAMERA_WIDTH_DIV8 \<or> buf_height buffer_160x120 \<noteq> CAMERA_HEIGHT_DIV8"
      "buf_width buffer_160x120 = 160" "buf_height buffer_160x120 = 120"
      "buf_format buffer_160x120 = FORMAT_RGB565"
    by (simp_all add: buffer_160x120_def CAMERA_WIDTH_DIV8_def)
  have fmt: "FORMAT_RGB565 \<noteq> 0"
    by (simp add: format_codes)
  have differs: "cfg_format (config ?c1) \<noteq> buf_format buffer_160x120
           \<or> cfg_width (config ?c1) \<noteq> buf_width buffer_160x120
           \<or> cfg_height (config ?c1) \<noteq> buf_height buffer_160x120"
    using c1(4) buf(2) by simp
  have rej: "camera_configure sdk_instance 1 FORMAT_RGB565 160 120 sys_probe_failed
               = Inr (- 1, sys_probe_failed)"
    by (rule camera_configure_rejects) (simp add: CAMERA_WIDTH_DIV8_def)
  let ?arm = "map (\<lambda>i. Dma_channel_configure (dma_channels ?c1 ! i)
                            (dma_cfgs (config ?c1) ! i) (data buffer_160x120 ! i)
                            (pio platform_instance) (i + 1) (dma_offset (config ?c1) ! i)
                            (dma_transfers (config ?c1) ! i) True)
                 [0..<unat (format_num_planes (cfg_format (config ?c1)))]"
  let ?go = "Camera_pio_trigger_frame (pio platform_instance)
               (ucast (buf_width buffer_160x120)
                  div ucast (camera_pixels_per_chunk (buf_format buffer_160x120)))
               (ucast (buf_height buffer_160x120))"
  let ?s2 = "emit [?go] ((emit ?arm sys_probe_failed)
                           \<lparr>cameras := (cameras sys_probe_failed)(1 \<mapsto> ?c2)\<rparr>)"
  from camera_do_frame_failed_reconfigure
         [OF cam1 c1(1,2) buf(1) differs, of sdk_instance cbs_skip None 8 None None]
  have run2: "camera_capture_with_cb sdk_instance cbs_skip None 1 8 buffer_160x120
                True None None sys_probe_failed = Inr (0, ?s2)"
    by (simp only: camera_capture_with_cb_def)
  have cam2: "cameras ?s2 1 = Some ?c2"
    by simp
  have pio0: "pio platform_instance = pio0"
    by (simp add: platform_instance_def)
  have arm: "?arm = []"
    using c1(3) by (simp add: format_num_planes_0)
  have go: "?go = Camera_pio_trigger_frame pio0 80 120"
    by (simp add: buf camera_pixels_per_chunk_def pio0)
  have tr2: "trace ?s2 = trace sys_probe_failed @ [Camera_pio_trigger_frame pio0 80 120]"
    unfolding arm go by simp
  have c2: "config ?c2 = config ?c1" "cfg_format (config ?c2) = 0"
      "cfg_width (config ?c2) = 0" "cfg_height (config ?c2) = 0" "pending ?c2 = Some 8"
    using c1(3-5) by simp_all
  from init cam1 c1(1) rej run2 cam2 c2 buf(2,3,4) fmt tr2 show ?thesis
    by blast
qed

theorem capture_ignores_failed_reconfigure_witness:
  "\<exists>s1 s2 c2.
      camera_init sdk_instance 1 platform_instance sys_reset = Inr (- 1, s1)
    \<and> camera_capture_with_cb sdk_instance cbs_skip None 1 8 buffer_160x120 True None None s1
          = Inr (0, s2)
    \<and> cameras s2 1 = Some c2
    \<and> (cfg_width (config c2), cfg_height (config c2)) = (0, 0)
    \<and> (buf_width buffer_160x120, buf_height buffer_160x120) = (160, 120)"
  using capture_ignores_failed_reconfigure by (simp only: prod.inject) blast

end
